theory Spec2Isabelle
  imports Main
begin

section \<open>JavaScript values and strings\<close>

text \<open>
  The library is TypeScript. A JavaScript string is modelled by a \<^typ>\<open>string\<close> whose
  characters are its UTF-16 code units; the model covers the code units below 256
  (ASCII and Latin-1), so \<^const>\<open>length\<close> is the \<^verbatim>\<open>.length\<close> of the source, and a
  character of code 128 or more takes two bytes in UTF-8. Numbers are the integers
  (timestamps and offsets in seconds); fractions are outside the model.
  An object is the list of its entries in enumeration order; a property that is not in
  the list is \<^verbatim>\<open>undefined\<close>.
\<close>

datatype json =
    JNull
  | JBool bool
  | JNum int
  | JStr string
  | JArr "json list"
  | JObj "(string \<times> json) list"

type_synonym payload = "(string \<times> json) list"

text \<open>Truthiness of a value, as \<^verbatim>\<open>if (v)\<close> and \<^verbatim>\<open>!v\<close> test it.\<close>

fun truthy :: "json \<Rightarrow> bool" where
  "truthy JNull = False"
| "truthy (JBool b) = b"
| "truthy (JNum n) = (n \<noteq> 0)"
| "truthy (JStr s) = (s \<noteq> [])"
| "truthy (JArr xs) = True"
| "truthy (JObj kvs) = True"

text \<open>\<^verbatim>\<open>payload.k\<close>: the value, or \<^const>\<open>None\<close> for \<^verbatim>\<open>undefined\<close>.\<close>

definition get_prop :: "payload \<Rightarrow> string \<Rightarrow> json option" where
  "get_prop p k = map_of p k"

text \<open>\<^verbatim>\<open>k in payload\<close>.\<close>

definition has_key :: "string \<Rightarrow> payload \<Rightarrow> bool" where
  "has_key k p = (map_of p k \<noteq> None)"

text \<open>Truthiness of \<^verbatim>\<open>payload.k\<close>; \<^verbatim>\<open>undefined\<close> is falsy.\<close>

definition truthy_prop :: "payload \<Rightarrow> string \<Rightarrow> bool" where
  "truthy_prop p k = (case map_of p k of None \<Rightarrow> False | Some v \<Rightarrow> truthy v)"

text \<open>Truthiness of an optional string or number option.\<close>

fun str_truthy :: "string option \<Rightarrow> bool" where
  "str_truthy None = False"
| "str_truthy (Some s) = (s \<noteq> [])"

text \<open>
  Writing a property: an object spread followed by the property, or \<^verbatim>\<open>Map.set\<close>.
  An existing key keeps its place and takes the new value, a new key goes last.
\<close>

fun set_entry :: "'k \<Rightarrow> 'v \<Rightarrow> ('k \<times> 'v) list \<Rightarrow> ('k \<times> 'v) list" where
  "set_entry k v [] = [(k, v)]"
| "set_entry k v ((k', v') # ps) =
     (if k' = k then (k, v) # ps else (k', v') # set_entry k v ps)"

text \<open>\<^verbatim>\<open>s.startsWith(p)\<close> and \<^verbatim>\<open>s.includes(sub)\<close>.\<close>

definition startsWith :: "string \<Rightarrow> string \<Rightarrow> bool" where
  "startsWith s p = (take (length p) s = p)"

fun str_includes :: "string \<Rightarrow> string \<Rightarrow> bool" where
  "str_includes [] sub = (sub = [])"
| "str_includes (c # cs) sub = (startsWith (c # cs) sub \<or> str_includes cs sub)"

text \<open>\<^verbatim>\<open>s.toLowerCase()\<close> on the code units of the model.\<close>

definition lower_char :: "char \<Rightarrow> char" where
  "lower_char c =
     (let n = (of_char c :: nat) in
      if (65 \<le> n \<and> n \<le> 90) \<or> (192 \<le> n \<and> n \<le> 222 \<and> n \<noteq> 215)
      then char_of (n + 32) else c)"

definition toLowerCase :: "string \<Rightarrow> string" where
  "toLowerCase s = map lower_char s"

text \<open>Decimal text of a number, as a template literal prints it.\<close>

function show_nat :: "nat \<Rightarrow> string" where
  "show_nat n =
     (if n < 10 then [char_of (48 + n)]
      else show_nat (n div 10) @ [char_of (48 + n mod 10)])"
  by pat_completeness auto
termination
  by (relation "measure id") auto

definition show_int :: "int \<Rightarrow> string" where
  "show_int i = (if i < 0 then CHR ''-'' # show_nat (nat (- i)) else show_nat (nat i))"

text \<open>\<^verbatim>\<open>xs.join(sep)\<close> on strings.\<close>

fun join :: "string \<Rightarrow> string list \<Rightarrow> string" where
  "join sep [] = []"
| "join sep [x] = x"
| "join sep (x # y # ys) = x @ sep @ join sep (y # ys)"

text \<open>
  \<^verbatim>\<open>new TextEncoder().encode(s)\<close>: the UTF-8 bytes of a string. A code unit below 128 is
  one byte, one from 128 to 255 is two.
\<close>

definition utf8_char :: "char \<Rightarrow> nat list" where
  "utf8_char c =
     (let n = (of_char c :: nat) in
      if n < 128 then [n] else [192 + n div 64, 128 + n mod 64])"

definition TextEncoder_encode :: "string \<Rightarrow> nat list" where
  "TextEncoder_encode s = concat (map utf8_char s)"

section \<open>Errors (errors.ts)\<close>

text \<open>
  The classes the library throws, each with its message. \<open>Error\<close> is the plain
  JavaScript error; \<open>TypeError\<close> is what a call of a missing method raises.
\<close>

datatype error =
    Error string
  | TypeError string
  | TokenExpiredError string
  | InvalidSignatureError string
  | InvalidTokenError string
  | SecurityValidationError string

fun message :: "error \<Rightarrow> string" where
  "message (Error m) = m"
| "message (TypeError m) = m"
| "message (TokenExpiredError m) = m"
| "message (InvalidSignatureError m) = m"
| "message (InvalidTokenError m) = m"
| "message (SecurityValidationError m) = m"

section \<open>Shared utilities (utils.ts)\<close>

text \<open>A time option is a duration string or a number of seconds.\<close>

datatype timespan = TStr string | TNum int

fun timespan_truthy :: "timespan option \<Rightarrow> bool" where
  "timespan_truthy None = False"
| "timespan_truthy (Some (TStr s)) = (s \<noteq> [])"
| "timespan_truthy (Some (TNum n)) = (n \<noteq> 0)"

definition is_digit :: "char \<Rightarrow> bool" where
  "is_digit c = (48 \<le> (of_char c :: nat) \<and> (of_char c :: nat) \<le> 57)"

definition parseInt :: "string \<Rightarrow> int" where
  "parseInt ds = foldl (\<lambda>a c. 10 * a + (int (of_char c) - 48)) 0 ds"

text \<open>
  \<^verbatim>\<open>parseTimeToSeconds\<close>: a number is returned as it is; a string must match
  \<^verbatim>\<open>/^(\d+)([smhdw])$/\<close>.
\<close>

definition parseTimeToSeconds :: "timespan \<Rightarrow> error + int" where
  "parseTimeToSeconds time =
     (case time of
        TNum n \<Rightarrow> Inr n
      | TStr s \<Rightarrow>
          (if s \<noteq> [] \<and> butlast s \<noteq> [] \<and> list_all is_digit (butlast s)
              \<and> last s \<in> set ''smhdw''
           then
             (let v = parseInt (butlast s); unit = last s in
              if unit = CHR ''s'' then Inr v
              else if unit = CHR ''m'' then Inr (v * 60)
              else if unit = CHR ''h'' then Inr (v * 3600)
              else if unit = CHR ''d'' then Inr (v * 86400)
              else if unit = CHR ''w'' then Inr (v * 604800)
              else Inl (Error (''Unknown time unit: '' @ [unit])))
           else Inl (Error (''Invalid time format: '' @ s))))"

text \<open>
  The clock: \<^verbatim>\<open>Date.now()\<close> is a parameter of every function that reads it, in
  milliseconds. A call reads one instant: the readings inside one call to sign or
  to assess are the same reading.
\<close>

definition getCurrentTimestamp :: "int \<Rightarrow> int" where
  "getCurrentTimestamp clock = clock div 1000"

definition isSecureAlgorithm :: "string \<Rightarrow> bool" where
  "isSecureAlgorithm algorithm =
     (algorithm \<in> set [''HS256'', ''HS384'', ''HS512'', ''RS256'', ''RS384'', ''RS512'',
                        ''ES256'', ''ES384'', ''ES512'', ''EdDSA''])"

section \<open>Key validation (keys.ts)\<close>

text \<open>
  A key is a string or a Buffer. A Buffer is given by the text its \<^verbatim>\<open>toString()\<close>
  yields; as an object it is truthy even when empty.
\<close>

datatype key_material = KeyString string | KeyBuffer string

fun key_toString :: "key_material \<Rightarrow> string" where
  "key_toString (KeyString s) = s"
| "key_toString (KeyBuffer s) = s"

fun key_truthy :: "key_material \<Rightarrow> bool" where
  "key_truthy (KeyString s) = (s \<noteq> [])"
| "key_truthy (KeyBuffer s) = True"

definition validateKeyForAlgorithm :: "key_material \<Rightarrow> string \<Rightarrow> error + unit" where
  "validateKeyForAlgorithm key algorithm =
     (if \<not> key_truthy key then Inl (InvalidTokenError ''Key is required'')
      else
        (let keyString = key_toString key in
         if startsWith algorithm ''HS'' \<and> length keyString < 32
         then Inl (InvalidTokenError ''HMAC key should be at least 32 characters for security'')
         else if (startsWith algorithm ''RS'' \<or> startsWith algorithm ''ES'')
                 \<and> \<not> str_includes keyString ''-----BEGIN''
                 \<and> \<not> str_includes keyString ''-----END''
         then Inl (InvalidTokenError ''RSA/ECDSA keys should be in PEM format'')
         else Inr ()))"

text \<open>The bytes of a key as the signer and the verifier hand them to the cryptography.\<close>

definition key_bytes :: "key_material \<Rightarrow> nat list" where
  "key_bytes key = TextEncoder_encode (key_toString key)"


section \<open>The cryptography collaborator\<close>

text \<open>
  Encoding, signing and signature verification are the work of the jose library, which
  is not part of the repository. The library enters the model in two ways. What the
  spec fixes about it is written down as definitions (each marked below): the
  signature is symbolic, recording the algorithm, the key and the claims it was made
  for, and claim validation follows the order of section 4.4 of the spec. The rest is a
  parameter, collected in a \<open>world\<close>: the text of the collaborator's error messages,
  which strings the platform accepts as URLs, and the key sets that are published at a
  URI. The texts with which the library throws are given once, in
  \<open>jose_message\<close> below, and the closed examples are evaluated with them.
\<close>

datatype failure =
    MalformedDuration
  | SigningFailure
  | InvalidURL
  | KeyFetchFailed
  | AlgorithmMismatch
  | KeyTypeMismatch
  | UnsupportedAlgorithm
  | SignatureMismatch
  | NotYetValid
  | Expired
  | IssuerMismatch
  | AudienceMismatch
  | MalformedClaim string

record world =
  failure_message :: "failure \<Rightarrow> string"
  valid_url :: "string \<Rightarrow> bool"
  key_sets :: "string \<Rightarrow> nat list list option"

datatype signature = Signature string "nat list" payload

text \<open>
  A credential in decoded form: the algorithm of its header, its claims and its
  signature. The wire encoding is the collaborator's; strings that do not decode to a
  credential are outside the model.
\<close>

record token =
  tok_alg :: string
  tok_claims :: payload
  tok_signature :: signature

text \<open>
  Modelled from the spec: the collaborator's reading of a relative duration string,
  unit suffix s/m/h/d/w, anything else being a malformed duration (section 4.3). It is
  the grammar of \<^const>\<open>parseTimeToSeconds\<close>.
\<close>

definition jose_secs :: "string \<Rightarrow> failure + int" where
  "jose_secs s =
     (case parseTimeToSeconds (TStr s) of Inl e \<Rightarrow> Inl MalformedDuration | Inr d \<Rightarrow> Inr d)"

text \<open>
  Modelled from the spec: the first claim setter of the collaborator's builder
  (\<^verbatim>\<open>jose.SignJWT\<close>): \<^verbatim>\<open>setIssuedAt()\<close> writes the current time in seconds
  (section 4.3).
\<close>

definition setIssuedAt :: "int \<Rightarrow> payload \<Rightarrow> payload" where
  "setIssuedAt clock jwt = set_entry ''iat'' (JNum (clock div 1000)) jwt"

text \<open>
  Modelled from the spec: a time claim set from an absolute number of seconds or from a
  duration string, which is added to the current time (section 4.3).
\<close>

definition set_time_claim :: "string \<Rightarrow> int \<Rightarrow> timespan \<Rightarrow> payload \<Rightarrow> failure + payload" where
  "set_time_claim name clock input jwt =
     (case input of
        TNum n \<Rightarrow> Inr (set_entry name (JNum n) jwt)
      | TStr s \<Rightarrow>
          (case jose_secs s of
             Inl f \<Rightarrow> Inl f
           | Inr d \<Rightarrow> Inr (set_entry name (JNum (clock div 1000 + d)) jwt)))"

text \<open>Modelled from the spec: the setter of \<^verbatim>\<open>exp\<close> (section 4.3).\<close>

definition setExpirationTime :: "int \<Rightarrow> timespan \<Rightarrow> payload \<Rightarrow> failure + payload" where
  "setExpirationTime clock input jwt = set_time_claim ''exp'' clock input jwt"

text \<open>Modelled from the spec: the setter of \<^verbatim>\<open>nbf\<close> (section 4.3).\<close>

definition setNotBefore :: "int \<Rightarrow> timespan \<Rightarrow> payload \<Rightarrow> failure + payload" where
  "setNotBefore clock input jwt = set_time_claim ''nbf'' clock input jwt"

text \<open>Modelled from the spec: the setter of \<^verbatim>\<open>aud\<close> (section 4.3).\<close>

definition setAudience :: "string \<Rightarrow> payload \<Rightarrow> payload" where
  "setAudience a jwt = set_entry ''aud'' (JStr a) jwt"

text \<open>Modelled from the spec: the setter of \<^verbatim>\<open>iss\<close> (section 4.3).\<close>

definition setIssuer :: "string \<Rightarrow> payload \<Rightarrow> payload" where
  "setIssuer i jwt = set_entry ''iss'' (JStr i) jwt"

text \<open>Modelled from the spec: the setter of \<^verbatim>\<open>sub\<close> (section 4.3).\<close>

definition setSubject :: "string \<Rightarrow> payload \<Rightarrow> payload" where
  "setSubject s jwt = set_entry ''sub'' (JStr s) jwt"

text \<open>
  The two families of algorithms the collaborator knows. A byte secret is the key of a
  shared-secret algorithm; a key set holds the public keys of the asymmetric ones. The
  unsigned algorithm \<^verbatim>\<open>none\<close> is in neither family.
\<close>

definition shared_secret_algorithm :: "string \<Rightarrow> bool" where
  "shared_secret_algorithm alg = (alg \<in> set [''HS256'', ''HS384'', ''HS512''])"

definition key_set_algorithm :: "string \<Rightarrow> bool" where
  "key_set_algorithm alg =
     (alg \<in> set [''RS256'', ''RS384'', ''RS512'', ''PS256'', ''PS384'', ''PS512'',
                   ''ES256'', ''ES384'', ''ES512'', ''EdDSA''])"

text \<open>
  The credential that carries the claims \<open>jwt\<close> under the algorithm \<open>alg\<close>, signed by the
  holder of the key \<open>k\<close>. For a shared-secret algorithm \<open>k\<close> is the secret's bytes; for an
  asymmetric one the bytes name the key pair, whose private half signs and whose public
  half a key set publishes.
\<close>

definition signed_token :: "string \<Rightarrow> nat list \<Rightarrow> payload \<Rightarrow> token" where
  "signed_token alg k jwt =
     \<lparr>tok_alg = alg, tok_claims = jwt, tok_signature = Signature alg k jwt\<rparr>"

text \<open>
  Modelled from the spec: the collaborator's final encoding and signature with the key
  and the header \<^verbatim>\<open>{alg}\<close>, and its signing failure (sections 4.3 and 7). \<^verbatim>\<open>sign.ts\<close>
  hands the collaborator the bytes of the secret, whatever the algorithm. Bytes are the
  key of a shared-secret algorithm only: under any other algorithm the collaborator
  refuses them and throws.
\<close>

definition jose_sign :: "string \<Rightarrow> nat list \<Rightarrow> payload \<Rightarrow> failure + token" where
  "jose_sign alg secret jwt =
     (if shared_secret_algorithm alg then Inr (signed_token alg secret jwt)
      else Inl SigningFailure)"

section \<open>Signing (sign.ts)\<close>

record sign_options =
  so_secret :: key_material
  so_alg :: string
  so_expiresIn :: "timespan option"
  so_notBefore :: "timespan option"
  so_audience :: "string option"
  so_issuer :: "string option"
  so_subject :: "string option"

text \<open>
  The body of the \<^verbatim>\<open>try\<close> block up to the signature: the claims are assembled in the
  order of the source. A failure of the collaborator leaves the block at once.
\<close>

definition with_expiration :: "int \<Rightarrow> timespan option \<Rightarrow> payload \<Rightarrow> failure + payload" where
  "with_expiration clock expiresIn jwt =
     (if timespan_truthy expiresIn then
        (case expiresIn of
           Some (TStr s) \<Rightarrow> setExpirationTime clock (TStr s) jwt
         | Some (TNum n) \<Rightarrow> setExpirationTime clock (TNum (getCurrentTimestamp clock + n)) jwt
         | None \<Rightarrow> setExpirationTime clock (TStr ''1h'') jwt)
      else setExpirationTime clock (TStr ''1h'') jwt)"

definition with_notBefore :: "int \<Rightarrow> timespan option \<Rightarrow> payload \<Rightarrow> failure + payload" where
  "with_notBefore clock notBefore jwt =
     (if timespan_truthy notBefore then
        (case notBefore of
           Some (TStr s) \<Rightarrow> setNotBefore clock (TStr s) jwt
         | Some (TNum n) \<Rightarrow> setNotBefore clock (TNum (getCurrentTimestamp clock + n)) jwt
         | None \<Rightarrow> Inr jwt)
      else Inr jwt)"

definition with_names :: "sign_options \<Rightarrow> payload \<Rightarrow> payload" where
  "with_names options jwt =
     (let jwt1 = (case so_audience options of
                    Some a \<Rightarrow> if a \<noteq> [] then setAudience a jwt else jwt | None \<Rightarrow> jwt);
          jwt2 = (case so_issuer options of
                    Some i \<Rightarrow> if i \<noteq> [] then setIssuer i jwt1 else jwt1 | None \<Rightarrow> jwt1)
      in (case so_subject options of
            Some s \<Rightarrow> if s \<noteq> [] then setSubject s jwt2 else jwt2 | None \<Rightarrow> jwt2))"

definition build_claims :: "int \<Rightarrow> payload \<Rightarrow> sign_options \<Rightarrow> failure + payload" where
  "build_claims clock payload options =
     (case with_expiration clock (so_expiresIn options) (setIssuedAt clock payload) of
        Inl f \<Rightarrow> Inl f
      | Inr jwt \<Rightarrow>
          (case with_notBefore clock (so_notBefore options) jwt of
             Inl f \<Rightarrow> Inl f
           | Inr jwt' \<Rightarrow> Inr (with_names options jwt')))"

definition signJWT :: "world \<Rightarrow> int \<Rightarrow> payload \<Rightarrow> sign_options \<Rightarrow> error + token" where
  "signJWT W clock payload options =
     (if \<not> isSecureAlgorithm (so_alg options)
      then Inl (Error (''Insecure algorithm: '' @ so_alg options
                        @ ''. Only secure algorithms are allowed.''))
      else
        (case validateKeyForAlgorithm (so_secret options) (so_alg options) of
           Inl e \<Rightarrow> Inl e
         | Inr u \<Rightarrow>
             (case build_claims clock payload options of
                Inl f \<Rightarrow> Inl (Error (''Failed to sign JWT: '' @ failure_message W f))
              | Inr jwt \<Rightarrow>
                  (case jose_sign (so_alg options) (key_bytes (so_secret options)) jwt of
                     Inl f \<Rightarrow> Inl (Error (''Failed to sign JWT: '' @ failure_message W f))
                   | Inr token \<Rightarrow> Inr token))))"


section \<open>Verification (verify.ts)\<close>

record verify_options =
  vo_secret :: "key_material option"
  vo_alg :: "string option"
  vo_jwksUri :: "string option"
  vo_audience :: "string option"
  vo_issuer :: "string option"
  vo_clockTolerance :: "int option"

text \<open>What \<^verbatim>\<open>verifyJWT\<close> hands to the collaborator: a remote key set or the secret's bytes.\<close>

datatype key_source = RemoteJWKSet string | SecretBytes "nat list"

record jwtVerify_options =
  jv_algorithms :: "string list option"
  jv_audience :: "string option"
  jv_issuer :: "string option"
  jv_clockTolerance :: int

text \<open>
  The two calls \<^verbatim>\<open>verifyJWT\<close> makes outside the repository, each giving its result or the
  message of the error it throws: the platform's \<^verbatim>\<open>new URL(uri)\<close> and the collaborator's
  \<^verbatim>\<open>jose.jwtVerify(token, key, options)\<close>.
\<close>

record collaborator =
  new_URL :: "string \<Rightarrow> string + string"
  jwtVerify :: "token \<Rightarrow> key_source \<Rightarrow> jwtVerify_options \<Rightarrow> string + payload"

text \<open>The \<^verbatim>\<open>catch\<close> block: the error class is chosen by the text of the message.\<close>

definition verify_error :: "string \<Rightarrow> error" where
  "verify_error m =
     (if str_includes m ''expired'' then TokenExpiredError ''Token has expired''
      else if str_includes m ''signature'' then InvalidSignatureError ''Invalid token signature''
      else InvalidTokenError (''Invalid token: '' @ m))"

definition select_key :: "collaborator \<Rightarrow> verify_options \<Rightarrow> string + key_source" where
  "select_key J options =
     (if str_truthy (vo_jwksUri options) then
        (case vo_jwksUri options of
           Some uri \<Rightarrow> (case new_URL J uri of Inl m \<Rightarrow> Inl m | Inr u \<Rightarrow> Inr (RemoteJWKSet u))
         | None \<Rightarrow> Inl ''Either secret or jwksUri must be provided'')
      else
        (case vo_secret options of
           Some k \<Rightarrow>
             if key_truthy k then Inr (SecretBytes (TextEncoder_encode (key_toString k)))
             else Inl ''Either secret or jwksUri must be provided''
         | None \<Rightarrow> Inl ''Either secret or jwksUri must be provided''))"

definition verify_call_options :: "verify_options \<Rightarrow> jwtVerify_options" where
  "verify_call_options options =
     \<lparr>jv_algorithms = (if str_truthy (vo_alg options)
                        then (case vo_alg options of Some a \<Rightarrow> Some [a] | None \<Rightarrow> None)
                        else None),
      jv_audience = vo_audience options,
      jv_issuer = vo_issuer options,
      jv_clockTolerance = (case vo_clockTolerance options of
                             Some t \<Rightarrow> if t \<noteq> 0 then t else 0 | None \<Rightarrow> 0)\<rparr>"

definition verifyJWT :: "collaborator \<Rightarrow> token \<Rightarrow> verify_options \<Rightarrow> error + payload" where
  "verifyJWT J token options =
     (case select_key J options of
        Inl m \<Rightarrow> Inl (verify_error m)
      | Inr keyOrSecret \<Rightarrow>
          (case jwtVerify J token keyOrSecret (verify_call_options options) of
             Inl m \<Rightarrow> Inl (verify_error m)
           | Inr payload \<Rightarrow> Inr payload))"

text \<open>\<^verbatim>\<open>decodeJWT\<close> reads header and claims and checks nothing.\<close>

definition decodeJWT :: "token \<Rightarrow> string \<times> payload" where
  "decodeJWT token = (tok_alg token, tok_claims token)"

subsection \<open>The collaborator's verification\<close>

text \<open>
  Modelled from the spec: the keys a key source stands for (section 4.4, step 2): the
  secret itself, or the key set published at the URI; no key set is a fetch failure.
\<close>

definition resolve_keys :: "world \<Rightarrow> key_source \<Rightarrow> nat list list option" where
  "resolve_keys W src =
     (case src of SecretBytes b \<Rightarrow> Some [b] | RemoteJWKSet uri \<Rightarrow> key_sets W uri)"

text \<open>
  Modelled from the spec: the not-before check (section 4.4, step 4). The current time
  must be at least \<^verbatim>\<open>nbf\<close> minus the tolerance. A claim that is not a number is a
  malformed claim.
\<close>

definition check_nbf :: "int \<Rightarrow> int \<Rightarrow> payload \<Rightarrow> failure option" where
  "check_nbf now tol claims =
     (case get_prop claims ''nbf'' of
        None \<Rightarrow> None
      | Some (JNum n) \<Rightarrow> if now \<ge> n - tol then None else Some NotYetValid
      | Some v \<Rightarrow> Some (MalformedClaim ''nbf''))"

text \<open>
  Modelled from the spec: the expiration check (section 4.4, step 4). The current time
  must be less than \<^verbatim>\<open>exp\<close> plus the tolerance. A claim that is not a number is a
  malformed claim.
\<close>

definition check_exp :: "int \<Rightarrow> int \<Rightarrow> payload \<Rightarrow> failure option" where
  "check_exp now tol claims =
     (case get_prop claims ''exp'' of
        None \<Rightarrow> None
      | Some (JNum e) \<Rightarrow> if now < e + tol then None else Some Expired
      | Some v \<Rightarrow> Some (MalformedClaim ''exp''))"

text \<open>
  Modelled from the spec: the issuer check (section 4.4, step 5). An issuer option must
  equal the claim \<^verbatim>\<open>iss\<close>.
\<close>

definition issuer_ok :: "string option \<Rightarrow> payload \<Rightarrow> bool" where
  "issuer_ok want claims =
     (case want of None \<Rightarrow> True | Some i \<Rightarrow> get_prop claims ''iss'' = Some (JStr i))"

text \<open>
  Modelled from the spec: the audience check (section 4.4, step 6). An audience option
  must equal the claim \<^verbatim>\<open>aud\<close> or be one of its members.
\<close>

definition audience_ok :: "string option \<Rightarrow> payload \<Rightarrow> bool" where
  "audience_ok want claims =
     (case want of
        None \<Rightarrow> True
      | Some a \<Rightarrow>
          (case get_prop claims ''aud'' of
             Some (JStr s) \<Rightarrow> s = a
           | Some (JArr xs) \<Rightarrow> JStr a \<in> set xs
           | _ \<Rightarrow> False))"

text \<open>
  Modelled from the spec: whether a key source can serve an algorithm. The secret's
  bytes serve the shared-secret algorithms, a remote key set the asymmetric ones
  (section 3: a key set is a collection of public keys).
\<close>

definition serves :: "key_source \<Rightarrow> string \<Rightarrow> bool" where
  "serves src alg =
     (case src of
        SecretBytes b \<Rightarrow> shared_secret_algorithm alg
      | RemoteJWKSet uri \<Rightarrow> key_set_algorithm alg)"

definition not_served :: "key_source \<Rightarrow> failure" where
  "not_served src =
     (case src of SecretBytes b \<Rightarrow> KeyTypeMismatch | RemoteJWKSet uri \<Rightarrow> UnsupportedAlgorithm)"

text \<open>
  Modelled from the spec: the collaborator's \<^verbatim>\<open>jwtVerify\<close>, in the order of section 4.4:
  key resolution, algorithm match, signature (which the key source must be able to
  serve), temporal claims, issuer, audience.
\<close>

definition jose_jwtVerify ::
  "world \<Rightarrow> int \<Rightarrow> token \<Rightarrow> key_source \<Rightarrow> jwtVerify_options \<Rightarrow> failure + payload" where
  "jose_jwtVerify W clock token src opts =
     (case resolve_keys W src of
        None \<Rightarrow> Inl KeyFetchFailed
      | Some keys \<Rightarrow>
          (let now = clock div 1000;
               tol = jv_clockTolerance opts;
               claims = tok_claims token
           in if (case jv_algorithms opts of None \<Rightarrow> False | Some algs \<Rightarrow> tok_alg token \<notin> set algs)
              then Inl AlgorithmMismatch
              else if \<not> serves src (tok_alg token) then Inl (not_served src)
              else if \<not> list_ex (\<lambda>k. tok_signature token = Signature (tok_alg token) k claims) keys
              then Inl SignatureMismatch
              else (case check_nbf now tol claims of
                      Some f \<Rightarrow> Inl f
                    | None \<Rightarrow>
                        (case check_exp now tol claims of
                           Some f \<Rightarrow> Inl f
                         | None \<Rightarrow>
                             if \<not> issuer_ok (jv_issuer opts) claims then Inl IssuerMismatch
                             else if \<not> audience_ok (jv_audience opts) claims
                             then Inl AudienceMismatch
                             else Inr claims))))"

text \<open>
  Modelled from the spec: the collaborator in a world \<open>W\<close>, verifying at the clock
  reading \<open>clock\<close> (milliseconds). Every failure is thrown with the message the world
  gives it.
\<close>

definition jose :: "world \<Rightarrow> int \<Rightarrow> collaborator" where
  "jose W clock =
     \<lparr>new_URL = (\<lambda>uri. if valid_url W uri then Inr uri
                         else Inl (failure_message W InvalidURL)),
      jwtVerify = (\<lambda>token src opts.
                     case jose_jwtVerify W clock token src opts of
                       Inl f \<Rightarrow> Inl (failure_message W f)
                     | Inr p \<Rightarrow> Inr p)\<rparr>"

text \<open>
  The texts with which the jose library throws its errors, and the platform its URL
  error. A claim name or header name stands in double quotes in them. The text for a key
  of the wrong type varies with the version of the library and names the algorithm; it
  is given in outline, and no statement below depends on it.
\<close>

definition quoted :: "string \<Rightarrow> string" where
  "quoted s = CHR 0x22 # s @ [CHR 0x22]"

definition jose_message :: "failure \<Rightarrow> string" where
  "jose_message f =
     (case f of
        MalformedDuration \<Rightarrow> ''Invalid time period format''
      | SigningFailure \<Rightarrow> ''Key for the algorithm must be one of type KeyObject or CryptoKey''
      | InvalidURL \<Rightarrow> ''Invalid URL''
      | KeyFetchFailed \<Rightarrow> ''Expected 200 OK from the JSON Web Key Set HTTP response''
      | AlgorithmMismatch \<Rightarrow> quoted ''alg'' @ '' (Algorithm) Header Parameter value not allowed''
      | KeyTypeMismatch \<Rightarrow> ''Key for the algorithm must be one of type KeyObject or CryptoKey''
      | UnsupportedAlgorithm \<Rightarrow>
          ''Unsupported '' @ quoted ''alg'' @ '' value for a JSON Web Key Set''
      | SignatureMismatch \<Rightarrow> ''signature verification failed''
      | NotYetValid \<Rightarrow> quoted ''nbf'' @ '' claim timestamp check failed''
      | Expired \<Rightarrow> quoted ''exp'' @ '' claim timestamp check failed''
      | IssuerMismatch \<Rightarrow> ''unexpected '' @ quoted ''iss'' @ '' claim value''
      | AudienceMismatch \<Rightarrow> ''unexpected '' @ quoted ''aud'' @ '' claim value''
      | MalformedClaim name \<Rightarrow> quoted name @ '' claim must be a number'')"

text \<open>
  The world of the closed examples: the library's messages, every URL with an
  \<^verbatim>\<open>https://\<close> scheme accepted, and one key set published, which holds the public key
  of one key pair. \<open>example_secret\<close> is the secret of the repository's tests.
\<close>

definition example_secret :: key_material where
  "example_secret = KeyString ''test-secret-key-for-testing-only''"

definition example_key_pair :: "nat list" where
  "example_key_pair = TextEncoder_encode ''test-key-id''"

definition example_world :: world where
  "example_world =
     \<lparr>failure_message = jose_message,
      valid_url = (\<lambda>uri. startsWith uri ''https://''),
      key_sets = (\<lambda>uri. if uri = ''https://example.com/.well-known/jwks.json''
                          then Some [example_key_pair] else None)\<rparr>"


section \<open>The key-set cache (keys.ts)\<close>

text \<open>
  The module state is the cache, a \<^verbatim>\<open>Map\<close> from URI to the fetched key set and the
  time of the fetch. The state also keeps the log of the network requests made, so that
  fetches can be counted. The network is a parameter: what \<^verbatim>\<open>fetch(uri)\<close> answers.
\<close>

record cache_entry =
  ce_data :: json
  ce_timestamp :: int

record keys_state =
  jwksCache :: "(string \<times> cache_entry) list"
  requests :: "string list"

text \<open>
  A rejected fetch with its message, or a response: \<^verbatim>\<open>ok\<close>, \<^verbatim>\<open>statusText\<close>, and what
  \<^verbatim>\<open>json()\<close> gives (the message of its error, or the parsed document).
\<close>

datatype response = NetworkError string | Response bool string "string + json"

definition JWKS_CACHE_TTL :: int where
  "JWKS_CACHE_TTL = 300000"

definition cache_hit :: "int \<Rightarrow> string \<Rightarrow> keys_state \<Rightarrow> json option" where
  "cache_hit clock jwksUri st =
     (case map_of (jwksCache st) jwksUri of
        None \<Rightarrow> None
      | Some cached \<Rightarrow>
          if clock - ce_timestamp cached < JWKS_CACHE_TTL then Some (ce_data cached) else None)"

text \<open>
  \<^verbatim>\<open>getJWKS\<close>. \<open>clock\<close> is \<^verbatim>\<open>Date.now()\<close> at the cache test, \<open>clock'\<close> is \<^verbatim>\<open>Date.now()\<close>
  when the fetched key set is stored. An error thrown inside the \<^verbatim>\<open>try\<close> block is
  caught and thrown again with the URI in front.
\<close>

definition getJWKS ::
  "(string \<Rightarrow> response) \<Rightarrow> int \<Rightarrow> int \<Rightarrow> string \<Rightarrow> keys_state \<Rightarrow> (error + json) \<times> keys_state" where
  "getJWKS fetch clock clock' jwksUri st =
     (case cache_hit clock jwksUri st of
        Some d \<Rightarrow> (Inr d, st)
      | None \<Rightarrow>
          (let st' = st\<lparr>requests := requests st @ [jwksUri]\<rparr>;
               failed = (\<lambda>m. Inl (Error (''Failed to fetch JWKS from '' @ jwksUri @ '': '' @ m)))
           in case fetch jwksUri of
                NetworkError m \<Rightarrow> (failed m, st')
              | Response ok statusText body \<Rightarrow>
                  if \<not> ok then (failed (''Failed to fetch JWKS: '' @ statusText), st')
                  else (case body of
                          Inl m \<Rightarrow> (failed m, st')
                        | Inr jwks \<Rightarrow>
                            (Inr jwks,
                             st'\<lparr>jwksCache :=
                                   set_entry jwksUri
                                     \<lparr>ce_data = jwks, ce_timestamp = clock'\<rparr>
                                     (jwksCache st')\<rparr>))))"

definition clearJWKSCache :: "keys_state \<Rightarrow> keys_state" where
  "clearJWKSCache st = st\<lparr>jwksCache := []\<rparr>"

definition getJWKSCacheStats :: "keys_state \<Rightarrow> nat \<times> string list" where
  "getJWKSCacheStats st = (length (jwksCache st), map fst (jwksCache st))"

text \<open>The number of network fetches made for a URI so far.\<close>

definition fetch_count :: "string \<Rightarrow> keys_state \<Rightarrow> nat" where
  "fetch_count uri st = length (filter (\<lambda>u. u = uri) (requests st))"

section \<open>Security policy (security.ts)\<close>

record SecurityPolicy =
  sp_maxTokenAge :: "int option"
  sp_requiredClaims :: "string list option"
  sp_forbiddenAlgorithms :: "string list option"
  sp_minimumKeyLength :: "int option"
  sp_requireHttps :: "bool option"
  sp_allowedIssuers :: "string list option"
  sp_allowedAudiences :: "string list option"
  sp_clockToleranceMax :: "int option"

definition DEFAULT_SECURITY_POLICY :: SecurityPolicy where
  "DEFAULT_SECURITY_POLICY =
     \<lparr>sp_maxTokenAge = Some 3600,
      sp_requiredClaims = Some [''exp'', ''iat'', ''sub''],
      sp_forbiddenAlgorithms = Some [''none'', ''HS256''],
      sp_minimumKeyLength = Some 256,
      sp_requireHttps = Some True,
      sp_allowedIssuers = None,
      sp_allowedAudiences = None,
      sp_clockToleranceMax = Some 300\<rparr>"

definition DEVELOPMENT_SECURITY_POLICY :: SecurityPolicy where
  "DEVELOPMENT_SECURITY_POLICY =
     \<lparr>sp_maxTokenAge = Some 86400,
      sp_requiredClaims = Some [''exp'', ''sub''],
      sp_forbiddenAlgorithms = Some [''none''],
      sp_minimumKeyLength = Some 128,
      sp_requireHttps = Some False,
      sp_allowedIssuers = None,
      sp_allowedAudiences = None,
      sp_clockToleranceMax = Some 600\<rparr>"

text \<open>
  \<^verbatim>\<open>String(v)\<close>, as a template literal and \<^verbatim>\<open>join\<close> print a value. Inside an array
  \<^verbatim>\<open>null\<close> prints as the empty string.
\<close>

fun js_String :: "json \<Rightarrow> string" where
  "js_String JNull = ''null''"
| "js_String (JBool b) = (if b then ''true'' else ''false'')"
| "js_String (JNum n) = show_int n"
| "js_String (JStr s) = s"
| "js_String (JArr xs) = join '','' (map (\<lambda>x. if x = JNull then [] else js_String x) xs)"
| "js_String (JObj kvs) = ''[object Object]''"

text \<open>
  The number a claim stands for in arithmetic. A claim that is not a number counts as
  \<^verbatim>\<open>NaN\<close>, with which every comparison is false; the coercion of numeric strings and
  booleans is outside the model.
\<close>

definition num_prop :: "payload \<Rightarrow> string \<Rightarrow> int option" where
  "num_prop p k = (case map_of p k of Some (JNum n) \<Rightarrow> Some n | _ \<Rightarrow> None)"

definition sensitiveFields :: "string list" where
  "sensitiveFields =
     [''password'', ''secret'', ''key'', ''token'', ''credential'', ''ssn'', ''credit_card'']"

definition entry_warnings :: "string \<times> json \<Rightarrow> string list" where
  "entry_warnings kv =
     (case kv of (key, v) \<Rightarrow>
        (if list_ex (\<lambda>field. str_includes (toLowerCase key) field) sensitiveFields
         then [''Potentially sensitive data in claim: '' @ key] else [])
        @ (case v of
             JStr s \<Rightarrow>
               if length s > 1000
               then [''Large claim detected: '' @ key @ '' ('' @ show_nat (length s)
                      @ '' characters)'']
               else []
           | _ \<Rightarrow> []))"

definition detectSuspiciousPatterns :: "payload \<Rightarrow> string list" where
  "detectSuspiciousPatterns payload =
     (if truthy_prop payload ''exp'' \<and> truthy_prop payload ''iat'' then
        (case (num_prop payload ''exp'', num_prop payload ''iat'') of
           (Some e, Some i) \<Rightarrow>
             if e - i > 31536000
             then [''Token lifetime very long: '' @ show_int ((e - i) div 86400) @ '' days'']
             else []
         | _ \<Rightarrow> [])
      else [])
     @ (if \<not> truthy_prop payload ''sub''
        then [''Missing subject (sub) claim - recommended for user identification'']
        else [])
     @ (if \<not> truthy_prop payload ''iss''
        then [''Missing issuer (iss) claim - recommended for token verification'']
        else [])
     @ concat (map entry_warnings payload)"

text \<open>The audiences of a payload: the array, or the single value in an array.\<close>

definition audiences_of :: "json \<Rightarrow> json list" where
  "audiences_of aud = (case aud of JArr xs \<Rightarrow> xs | v \<Rightarrow> [v])"

definition is_allowed_text :: "string list \<Rightarrow> json \<Rightarrow> bool" where
  "is_allowed_text allowed v = (case v of JStr s \<Rightarrow> s \<in> set allowed | _ \<Rightarrow> False)"

definition validateJWTSecurity :: "int \<Rightarrow> payload \<Rightarrow> string \<Rightarrow> SecurityPolicy \<Rightarrow> string list" where
  "validateJWTSecurity clock payload algorithm policy =
     (let now = clock div 1000;
          maxAge = (case sp_maxTokenAge policy of Some m \<Rightarrow> if m \<noteq> 0 then Some m else None
                    | None \<Rightarrow> None)
      in
        (case sp_requiredClaims policy of
           None \<Rightarrow> []
         | Some cs \<Rightarrow>
             concat (map (\<lambda>claim. if \<not> has_key claim payload
                                   then [''Missing required claim: '' @ claim] else []) cs))
      @ (case sp_forbiddenAlgorithms policy of
           None \<Rightarrow> []
         | Some fs \<Rightarrow> if algorithm \<in> set fs then [''Forbidden algorithm: '' @ algorithm] else [])
      @ (case maxAge of
           None \<Rightarrow> []
         | Some m \<Rightarrow>
             if truthy_prop payload ''iat'' then
               (case num_prop payload ''iat'' of
                  None \<Rightarrow> []
                | Some i \<Rightarrow>
                    if now - i > m
                    then [''Token too old: '' @ show_int (now - i) @ ''s (max: ''
                           @ show_int m @ ''s)'']
                    else [])
             else [])
      @ (if \<not> truthy_prop payload ''exp''
         then [''Token must have expiration time (exp claim)'']
         else
           (case (maxAge, num_prop payload ''exp'') of
              (Some m, Some e) \<Rightarrow>
                if e - now > m
                then [''Token expiration too long: '' @ show_int (e - now) @ ''s (max: ''
                       @ show_int m @ ''s)'']
                else []
            | _ \<Rightarrow> []))
      @ (case (sp_allowedIssuers policy, get_prop payload ''iss'') of
           (Some allowed, Some iss) \<Rightarrow>
             if truthy iss \<and> \<not> is_allowed_text allowed iss
             then [''Issuer not allowed: '' @ js_String iss] else []
         | _ \<Rightarrow> [])
      @ (case (sp_allowedAudiences policy, get_prop payload ''aud'') of
           (Some allowed, Some aud) \<Rightarrow>
             if truthy aud \<and> \<not> list_ex (is_allowed_text allowed) (audiences_of aud)
             then [''No allowed audience found in: ''
                    @ join '', '' (map (\<lambda>x. if x = JNull then [] else js_String x)
                                     (audiences_of aud))]
             else []
         | _ \<Rightarrow> [])
      @ detectSuspiciousPatterns payload)"

record assessment =
  score :: int
  violations :: "string list"
  warnings :: "string list"
  recommendations :: "string list"

definition generateSecurityAssessment ::
  "int \<Rightarrow> payload \<Rightarrow> string \<Rightarrow> SecurityPolicy \<Rightarrow> assessment" where
  "generateSecurityAssessment clock payload algorithm policy =
     (let vs = validateJWTSecurity clock payload algorithm policy;
          ws = detectSuspiciousPatterns payload
      in \<lparr>score = max 0 (100 - int (length vs) * 15 - int (length ws) * 5),
          violations = vs,
          warnings = ws,
          recommendations =
            (if algorithm = ''HS256''
             then [''Consider using RS256 for better security in distributed systems'']
             else [])
            @ (if \<not> truthy_prop payload ''iss''
               then [''Add issuer (iss) claim to identify token source''] else [])
            @ (if \<not> truthy_prop payload ''aud''
               then [''Add audience (aud) claim to specify intended recipients''] else [])
            @ (if truthy_prop payload ''exp'' \<and> truthy_prop payload ''iat''
                  \<and> (case (num_prop payload ''exp'', num_prop payload ''iat'') of
                        (Some e, Some i) \<Rightarrow> e - i > 3600 | _ \<Rightarrow> False)
               then [''Consider shorter token lifetime for better security''] else [])\<rparr>)"


section \<open>Enterprise providers (enterprise.ts)\<close>

text \<open>
  The provider configuration is an object of optional strings. A template literal
  prints a missing field as \<^verbatim>\<open>undefined\<close>. The providers are the six own keys of the table;
  property names inherited from the object prototype are outside the model.
\<close>

record enterprise_config =
  cfg_domain :: "string option"
  cfg_audience :: "string option"
  cfg_region :: "string option"
  cfg_userPoolId :: "string option"
  cfg_clientId :: "string option"
  cfg_projectId :: "string option"
  cfg_tenantId :: "string option"
  cfg_issuer :: "string option"

record EnterpriseProvider =
  ep_name :: string
  ep_jwksUri :: string
  ep_issuer :: "string option"
  ep_audience :: "string option"
  ep_algorithms :: "string list"
  ep_description :: string

definition tpl :: "string option \<Rightarrow> string" where
  "tpl v = (case v of None \<Rightarrow> ''undefined'' | Some s \<Rightarrow> s)"

definition ENTERPRISE_PROVIDERS ::
  "string \<Rightarrow> (enterprise_config \<Rightarrow> EnterpriseProvider) option" where
  "ENTERPRISE_PROVIDERS provider =
     (if provider = ''auth0'' then
        Some (\<lambda>config.
          \<lparr>ep_name = ''Auth0'',
           ep_jwksUri = ''https://'' @ tpl (cfg_domain config) @ ''/.well-known/jwks.json'',
           ep_issuer = Some (''https://'' @ tpl (cfg_domain config) @ ''/''),
           ep_audience = cfg_audience config,
           ep_algorithms = [''RS256''],
           ep_description = ''Auth0 Identity Platform''\<rparr>)
      else if provider = ''cognito'' then
        Some (\<lambda>config.
          \<lparr>ep_name = ''AWS Cognito'',
           ep_jwksUri = ''https://cognito-idp.'' @ tpl (cfg_region config) @ ''.amazonaws.com/''
                          @ tpl (cfg_userPoolId config) @ ''/.well-known/jwks.json'',
           ep_issuer = Some (''https://cognito-idp.'' @ tpl (cfg_region config)
                          @ ''.amazonaws.com/'' @ tpl (cfg_userPoolId config)),
           ep_audience = cfg_clientId config,
           ep_algorithms = [''RS256''],
           ep_description = ''AWS Cognito User Pool''\<rparr>)
      else if provider = ''okta'' then
        Some (\<lambda>config.
          \<lparr>ep_name = ''Okta'',
           ep_jwksUri = ''https://'' @ tpl (cfg_domain config)
                          @ ''/oauth2/default/.well-known/jwks.json'',
           ep_issuer = Some (''https://'' @ tpl (cfg_domain config) @ ''/oauth2/default''),
           ep_audience = cfg_audience config,
           ep_algorithms = [''RS256''],
           ep_description = ''Okta Identity Cloud''\<rparr>)
      else if provider = ''firebase'' then
        Some (\<lambda>config.
          \<lparr>ep_name = ''Firebase'',
           ep_jwksUri = ''https://www.googleapis.com/robot/v1/metadata/x509/''
                          @ ''securetoken@system.gserviceaccount.com'',
           ep_issuer = Some (''https://securetoken.google.com/'' @ tpl (cfg_projectId config)),
           ep_audience = cfg_projectId config,
           ep_algorithms = [''RS256''],
           ep_description = ''Firebase Authentication''\<rparr>)
      else if provider = ''azure'' then
        Some (\<lambda>config.
          \<lparr>ep_name = ''Azure AD'',
           ep_jwksUri = ''https://login.microsoftonline.com/'' @ tpl (cfg_tenantId config)
                          @ ''/discovery/v2.0/keys'',
           ep_issuer = Some (''https://login.microsoftonline.com/'' @ tpl (cfg_tenantId config)
                          @ ''/v2.0''),
           ep_audience = cfg_clientId config,
           ep_algorithms = [''RS256''],
           ep_description = ''Azure Active Directory''\<rparr>)
      else if provider = ''oidc'' then
        Some (\<lambda>config.
          \<lparr>ep_name = ''OpenID Connect'',
           ep_jwksUri = tpl (cfg_issuer config) @ ''/.well-known/jwks.json'',
           ep_issuer = cfg_issuer config,
           ep_audience = cfg_audience config,
           ep_algorithms = [''RS256'', ''ES256''],
           ep_description = ''Generic OpenID Connect Provider''\<rparr>)
      else None)"

text \<open>
  \<^verbatim>\<open>validateEnterpriseToken\<close>. For \<^verbatim>\<open>auth0\<close> the condition is evaluated and its branch is
  empty; evaluating it calls \<^verbatim>\<open>startsWith\<close> on a truthy \<^verbatim>\<open>sub\<close>, which throws when
  \<^verbatim>\<open>sub\<close> is not a string.
\<close>

definition validateEnterpriseToken ::
  "payload \<Rightarrow> string \<Rightarrow> enterprise_config \<Rightarrow> error + unit" where
  "validateEnterpriseToken payload provider config =
     (if provider = ''auth0'' then
        (case get_prop payload ''sub'' of
           None \<Rightarrow> Inr ()
         | Some (JStr s) \<Rightarrow> Inr ()
         | Some v \<Rightarrow>
             if truthy v then Inl (TypeError ''payload.sub.startsWith is not a function'')
             else Inr ())
      else if provider = ''cognito'' then
        (if \<not> truthy_prop payload ''token_use''
         then Inl (InvalidTokenError ''AWS Cognito token missing token_use claim'')
         else if get_prop payload ''token_use'' \<noteq> Some (JStr ''id'')
                 \<and> get_prop payload ''token_use'' \<noteq> Some (JStr ''access'')
         then Inl (InvalidTokenError (''Invalid AWS Cognito token_use: ''
                     @ (case get_prop payload ''token_use'' of
                          Some v \<Rightarrow> js_String v | None \<Rightarrow> ''undefined'')))
         else Inr ())
      else if provider = ''firebase'' then
        (if \<not> truthy_prop payload ''auth_time''
         then Inl (InvalidTokenError ''Firebase token missing auth_time claim'')
         else if truthy_prop payload ''firebase''
                 \<and> \<not> (case get_prop payload ''firebase'' of
                          Some (JObj kvs) \<Rightarrow> truthy_prop kvs ''identities''
                        | _ \<Rightarrow> False)
         then Inl (InvalidTokenError ''Firebase token missing identity information'')
         else Inr ())
      else if provider = ''azure'' then
        (if \<not> truthy_prop payload ''tid''
         then Inl (InvalidTokenError ''Azure AD token missing tenant ID (tid)'')
         else if str_truthy (cfg_tenantId config)
                 \<and> get_prop payload ''tid'' \<noteq> map_option JStr (cfg_tenantId config)
         then Inl (InvalidTokenError (''Token tenant ID mismatch. Expected: ''
                     @ tpl (cfg_tenantId config) @ '', Got: ''
                     @ (case get_prop payload ''tid'' of
                          Some v \<Rightarrow> js_String v | None \<Rightarrow> ''undefined'')))
         else Inr ())
      else Inr ())"

text \<open>
  The options of the call, \<^verbatim>\<open>{jwksUri, issuer, audience, ...options}\<close>: a field the
  caller's options carry replaces the provider's. In the caller's options \<^const>\<open>None\<close>
  stands for a field that is not there.
\<close>

definition enterprise_options :: "EnterpriseProvider \<Rightarrow> verify_options \<Rightarrow> verify_options" where
  "enterprise_options providerConfig options =
     \<lparr>vo_secret = vo_secret options,
      vo_alg = vo_alg options,
      vo_jwksUri = (case vo_jwksUri options of
                      Some u \<Rightarrow> Some u | None \<Rightarrow> Some (ep_jwksUri providerConfig)),
      vo_audience = (case vo_audience options of
                       Some a \<Rightarrow> Some a | None \<Rightarrow> ep_audience providerConfig),
      vo_issuer = (case vo_issuer options of
                     Some i \<Rightarrow> Some i | None \<Rightarrow> ep_issuer providerConfig),
      vo_clockTolerance = vo_clockTolerance options\<rparr>"

text \<open>
  \<^verbatim>\<open>verifyEnterpriseJWT\<close>. The verifier \<open>verify\<close> is the \<^verbatim>\<open>verifyJWT\<close> the module imports;
  whatever it or the provider's checks throw is thrown again as an
  \<^verbatim>\<open>InvalidTokenError\<close>.
\<close>

definition verifyEnterpriseJWT ::
  "(token \<Rightarrow> verify_options \<Rightarrow> error + payload) \<Rightarrow> token \<Rightarrow> string \<Rightarrow> enterprise_config
     \<Rightarrow> verify_options \<Rightarrow> error + payload" where
  "verifyEnterpriseJWT verify token provider config options =
     (case ENTERPRISE_PROVIDERS provider of
        None \<Rightarrow> Inl (InvalidTokenError (''Unsupported enterprise provider: '' @ provider))
      | Some build \<Rightarrow>
          (let providerConfig = build config;
               failed = (\<lambda>e. Inl (InvalidTokenError
                                (''Enterprise verification failed for '' @ ep_name providerConfig
                                  @ '': '' @ message e)))
           in case verify token (enterprise_options providerConfig options) of
                Inl e \<Rightarrow> failed e
              | Inr payload \<Rightarrow>
                  (case validateEnterpriseToken payload provider config of
                     Inl e \<Rightarrow> failed e
                   | Inr u \<Rightarrow> Inr payload)))"

text \<open>A credential's \<^verbatim>\<open>token_use\<close> is valid when it is the string \<^verbatim>\<open>id\<close> or \<^verbatim>\<open>access\<close>.\<close>

definition token_use_valid :: "payload \<Rightarrow> bool" where
  "token_use_valid payload =
     (get_prop payload ''token_use'' = Some (JStr ''id'')
      \<or> get_prop payload ''token_use'' = Some (JStr ''access''))"

section \<open>The claim set a signed credential is to carry\<close>

text \<open>
  What the spec promises of a signed credential (sections 4.3 and 8), written down
  independently of \<^const>\<open>build_claims\<close>: the caller's claims plus \<^verbatim>\<open>iat\<close> and \<^verbatim>\<open>exp\<close>, and
  \<^verbatim>\<open>nbf\<close>, \<^verbatim>\<open>aud\<close>, \<^verbatim>\<open>iss\<close>, \<^verbatim>\<open>sub\<close> when the option is set. A generated claim replaces a
  claim of the same name. An option is set when it is truthy; the offset of a time
  option is what \<^const>\<open>parseTimeToSeconds\<close> gives for it.
\<close>

definition duration :: "timespan option \<Rightarrow> int" where
  "duration t =
     (case t of
        None \<Rightarrow> 0
      | Some x \<Rightarrow> (case parseTimeToSeconds x of Inr d \<Rightarrow> d | Inl e \<Rightarrow> 0))"

definition expected_claims :: "int \<Rightarrow> payload \<Rightarrow> sign_options \<Rightarrow> string \<Rightarrow> json option" where
  "expected_claims clock C options k =
     (let now = clock div 1000 in
      if k = ''iat'' then Some (JNum now)
      else if k = ''exp'' then
        Some (JNum (now + (if timespan_truthy (so_expiresIn options)
                           then duration (so_expiresIn options) else 3600)))
      else if k = ''nbf'' \<and> timespan_truthy (so_notBefore options) then
        Some (JNum (now + duration (so_notBefore options)))
      else if k = ''aud'' \<and> str_truthy (so_audience options) then
        map_option JStr (so_audience options)
      else if k = ''iss'' \<and> str_truthy (so_issuer options) then
        map_option JStr (so_issuer options)
      else if k = ''sub'' \<and> str_truthy (so_subject options) then
        map_option JStr (so_subject options)
      else get_prop C k)"

text \<open>The options of the repository's own tests: the test secret with HS256.\<close>

definition example_sign_options :: sign_options where
  "example_sign_options =
     \<lparr>so_secret = example_secret, so_alg = ''HS256'', so_expiresIn = None,
      so_notBefore = None, so_audience = None, so_issuer = None, so_subject = None\<rparr>"

definition example_verify_options :: verify_options where
  "example_verify_options =
     \<lparr>vo_secret = Some example_secret, vo_alg = Some ''HS256'', vo_jwksUri = None,
      vo_audience = None, vo_issuer = None, vo_clockTolerance = None\<rparr>"

definition example_claims :: payload where
  "example_claims = [(''sub'', JStr ''user123'')]"

definition example_named_options :: sign_options where
  "example_named_options =
     example_sign_options\<lparr>so_issuer := Some ''https://auth.example.com'',
                           so_audience := Some ''https://api.example.com''\<rparr>"

definition example_named_verify :: verify_options where
  "example_named_verify =
     example_verify_options\<lparr>vo_issuer := Some ''https://auth.example.com'',
                             vo_audience := Some ''https://api.example.com''\<rparr>"

definition example_expired_options :: sign_options where
  "example_expired_options = example_sign_options\<lparr>so_expiresIn := Some (TNum (- 1))\<rparr>"


text \<open>
  Credentials issued elsewhere by the holder of the example key pair, under RS256 and
  under PS256, which is not on the allow-list.
\<close>

definition example_rs256_token :: token where
  "example_rs256_token =
     signed_token ''RS256'' example_key_pair
       [(''sub'', JStr ''user123''), (''iat'', JNum 1700000000), (''exp'', JNum 1700003600)]"


definition example_not_yet_options :: sign_options where
  "example_not_yet_options = example_sign_options\<lparr>so_notBefore := Some (TNum 3600)\<rparr>"

definition example_jwks_options :: verify_options where
  "example_jwks_options =
     \<lparr>vo_secret = Some (KeyString ''wrong-secret-key''), vo_alg = Some ''RS256'',
      vo_jwksUri = Some ''https://example.com/.well-known/jwks.json'',
      vo_audience = None, vo_issuer = None, vo_clockTolerance = None\<rparr>"

definition example_no_key_options :: verify_options where
  "example_no_key_options =
     \<lparr>vo_secret = None, vo_alg = Some ''none'', vo_jwksUri = None,
      vo_audience = None, vo_issuer = None, vo_clockTolerance = None\<rparr>"

text \<open>The payload of scenario C of the spec: \<^verbatim>\<open>{sub: "u", iat: T, exp: T + 3600}\<close>.\<close>

definition scenario_payload :: "int \<Rightarrow> payload" where
  "scenario_payload T = [(''sub'', JStr ''u''), (''iat'', JNum T), (''exp'', JNum (T + 3600))]"

text \<open>A key set, a network that answers with it, one that fails, and two cache states.\<close>

definition example_jwks :: json where
  "example_jwks = JObj [(''keys'', JArr [JObj [(''kty'', JStr ''RSA''), (''kid'', JStr ''test-key'')]])]"

definition example_fetch :: "string \<Rightarrow> response" where
  "example_fetch uri = Response True ''OK'' (Inr example_jwks)"

definition failing_fetch :: "string \<Rightarrow> response" where
  "failing_fetch uri = NetworkError ''Network error''"

definition empty_keys_state :: keys_state where
  "empty_keys_state = \<lparr>jwksCache = [], requests = []\<rparr>"

definition warm_keys_state :: keys_state where
  "warm_keys_state =
     \<lparr>jwksCache = [(''https://example.com/.well-known/jwks.json'',
                     \<lparr>ce_data = example_jwks, ce_timestamp = 1700000000200\<rparr>)],
      requests = [''https://example.com/.well-known/jwks.json'']\<rparr>"

text \<open>A key of sixteen characters of two bytes each (the letter e with an acute accent).\<close>

definition accented_key :: key_material where
  "accented_key = KeyString (replicate 16 (CHR 0xE9))"

text \<open>
  A Cognito user pool: its configuration, a world in which its key set is published, and
  two credentials signed by a key of the set, without and with \<^verbatim>\<open>token_use\<close>.
\<close>

definition cognito_config :: enterprise_config where
  "cognito_config =
     \<lparr>cfg_domain = None, cfg_audience = None, cfg_region = Some ''us-east-1'',
      cfg_userPoolId = Some ''us-east-1_ABC123DEF'', cfg_clientId = None,
      cfg_projectId = None, cfg_tenantId = None, cfg_issuer = None\<rparr>"

definition no_overrides :: verify_options where
  "no_overrides =
     \<lparr>vo_secret = None, vo_alg = None, vo_jwksUri = None, vo_audience = None,
      vo_issuer = None, vo_clockTolerance = None\<rparr>"

definition cognito_world :: world where
  "cognito_world =
     example_world\<lparr>key_sets :=
       (\<lambda>uri. if uri = ''https://cognito-idp.us-east-1.amazonaws.com/us-east-1_ABC123DEF/.well-known/jwks.json''
               then Some [example_key_pair] else None)\<rparr>"

definition cognito_claims :: payload where
  "cognito_claims =
     [(''sub'', JStr ''user123''),
      (''iss'', JStr ''https://cognito-idp.us-east-1.amazonaws.com/us-east-1_ABC123DEF''),
      (''iat'', JNum 1700000000), (''exp'', JNum 1700003600)]"

definition cognito_token :: token where
  "cognito_token = signed_token ''RS256'' example_key_pair cognito_claims"

definition cognito_id_token :: token where
  "cognito_id_token =
     signed_token ''RS256'' example_key_pair
       (cognito_claims @ [(''token_use'', JStr ''id'')])"

section \<open>Signing: the claims of a signed credential\<close>

lemma map_of_set_entry: "map_of (set_entry k v p) = (map_of p)(k \<mapsto> v)"
  by (induction p) auto

lemma get_prop_set_entry:
  "get_prop (set_entry k v p) k' = (if k' = k then Some v else get_prop p k')"
  by (simp add: get_prop_def map_of_set_entry)

lemma one_hour: "jose_secs ''1h'' = Inr 3600"
  by (simp add: jose_secs_def parseTimeToSeconds_def is_digit_def parseInt_def)

lemma set_time_claim_prop:
  assumes "set_time_claim name clock (TNum (clock div 1000 + d)) jwt = Inr jwt'"
  shows "get_prop jwt' k = (if k = name then Some (JNum (clock div 1000 + d)) else get_prop jwt k)"
  using assms by (auto simp: set_time_claim_def get_prop_set_entry)

lemma set_time_claim_str:
  assumes "set_time_claim name clock (TStr s) jwt = Inr jwt'"
  shows "get_prop jwt' k =
     (if k = name then Some (JNum (clock div 1000 + duration (Some (TStr s)))) else get_prop jwt k)"
  using assms
  by (auto simp: set_time_claim_def get_prop_set_entry jose_secs_def duration_def
      split: sum.splits)

lemma with_expiration_prop:
  assumes "with_expiration clock e jwt = Inr jwt'"
  shows "get_prop jwt' k =
     (if k = ''exp'' then
        Some (JNum (clock div 1000 + (if timespan_truthy e then duration e else 3600)))
      else get_prop jwt k)"
proof (cases "timespan_truthy e")
  case False
  with assms have "set_time_claim ''exp'' clock (TStr ''1h'') jwt = Inr jwt'"
    by (simp add: with_expiration_def setExpirationTime_def)
  then show ?thesis using False one_hour
    by (auto simp: set_time_claim_def get_prop_set_entry)
next
  case True
  then obtain x where e: "e = Some x" by (cases e) auto
  show ?thesis
  proof (cases x)
    case (TStr s)
    with assms e True have "set_time_claim ''exp'' clock (TStr s) jwt = Inr jwt'"
      by (simp add: with_expiration_def setExpirationTime_def)
    from set_time_claim_str [OF this] show ?thesis using True e TStr by simp
  next
    case (TNum n)
    with assms e True
    have "set_time_claim ''exp'' clock (TNum (clock div 1000 + n)) jwt = Inr jwt'"
      by (simp add: with_expiration_def setExpirationTime_def getCurrentTimestamp_def)
    from set_time_claim_prop [OF this] show ?thesis using True e TNum
      by (simp add: duration_def parseTimeToSeconds_def)
  qed
qed

lemma with_notBefore_prop:
  assumes "with_notBefore clock e jwt = Inr jwt'"
  shows "get_prop jwt' k =
     (if k = ''nbf'' \<and> timespan_truthy e then Some (JNum (clock div 1000 + duration e))
      else get_prop jwt k)"
proof (cases "timespan_truthy e")
  case False
  with assms show ?thesis by (simp add: with_notBefore_def)
next
  case True
  then obtain x where e: "e = Some x" by (cases e) auto
  show ?thesis
  proof (cases x)
    case (TStr s)
    with assms e True have "set_time_claim ''nbf'' clock (TStr s) jwt = Inr jwt'"
      by (simp add: with_notBefore_def setNotBefore_def)
    from set_time_claim_str [OF this] show ?thesis using True e TStr by simp
  next
    case (TNum n)
    with assms e True
    have "set_time_claim ''nbf'' clock (TNum (clock div 1000 + n)) jwt = Inr jwt'"
      by (simp add: with_notBefore_def setNotBefore_def getCurrentTimestamp_def)
    from set_time_claim_prop [OF this] show ?thesis using True e TNum
      by (simp add: duration_def parseTimeToSeconds_def)
  qed
qed

lemma with_names_prop:
  "get_prop (with_names options jwt) k =
     (if k = ''aud'' \<and> str_truthy (so_audience options) then map_option JStr (so_audience options)
      else if k = ''iss'' \<and> str_truthy (so_issuer options) then map_option JStr (so_issuer options)
      else if k = ''sub'' \<and> str_truthy (so_subject options) then map_option JStr (so_subject options)
      else get_prop jwt k)"
  by (cases "so_audience options"; cases "so_issuer options"; cases "so_subject options")
     (simp_all add: with_names_def setAudience_def setIssuer_def setSubject_def
        get_prop_set_entry Let_def)

lemma build_claims_prop:
  assumes "build_claims clock C options = Inr jwt"
  shows "get_prop jwt k = expected_claims clock C options k"
proof -
  from assms obtain j1 j2 where
    j1: "with_expiration clock (so_expiresIn options) (setIssuedAt clock C) = Inr j1" and
    j2: "with_notBefore clock (so_notBefore options) j1 = Inr j2" and
    jwt: "jwt = with_names options j2"
    by (auto simp: build_claims_def split: sum.splits)
  have "get_prop (setIssuedAt clock C) k =
          (if k = ''iat'' then Some (JNum (clock div 1000)) else get_prop C k)" for k
    by (simp add: setIssuedAt_def get_prop_set_entry)
  then show ?thesis
    unfolding jwt with_names_prop with_notBefore_prop [OF j2] with_expiration_prop [OF j1]
    by (simp add: expected_claims_def Let_def)
qed

lemma signJWT_Inr:
  assumes "signJWT W clock C options = Inr token"
  shows "isSecureAlgorithm (so_alg options)"
    and "validateKeyForAlgorithm (so_secret options) (so_alg options) = Inr ()"
    and "build_claims clock C options = Inr (tok_claims token)"
    and "token = signed_token (so_alg options) (key_bytes (so_secret options)) (tok_claims token)"
    and "shared_secret_algorithm (so_alg options)"
  using assms
  by (auto simp: signJWT_def jose_sign_def signed_token_def split: if_splits sum.splits)

lemma signJWT_claims:
  assumes "signJWT W clock C options = Inr token"
  shows "get_prop (tok_claims token) k = expected_claims clock C options k"
  using build_claims_prop [OF signJWT_Inr(3) [OF assms]] .

lemma build_claims_total:
  assumes "\<not> timespan_truthy (so_expiresIn options)" "\<not> timespan_truthy (so_notBefore options)"
  shows "\<exists>jwt. build_claims clock C options = Inr jwt"
  using assms one_hour
  by (simp add: build_claims_def with_expiration_def with_notBefore_def setExpirationTime_def
      set_time_claim_def)

lemma example_key_valid:
  "validateKeyForAlgorithm example_secret ''HS256'' = Inr ()"
  by (simp add: validateKeyForAlgorithm_def example_secret_def startsWith_def)

lemma example_alg_secure: "isSecureAlgorithm ''HS256''"
  by (simp add: isSecureAlgorithm_def)

lemma example_sign:
  "signJWT example_world 1700000000123 [(''sub'', JStr ''user123'')] example_sign_options =
     Inr (signed_token ''HS256'' (key_bytes example_secret)
            [(''sub'', JStr ''user123''), (''iat'', JNum 1700000000),
             (''exp'', JNum 1700003600)])"
  using one_hour
  by (simp add: signJWT_def example_sign_options_def example_key_valid example_alg_secure
      jose_sign_def shared_secret_algorithm_def build_claims_def with_expiration_def with_notBefore_def with_names_def
      setExpirationTime_def set_time_claim_def setIssuedAt_def)

section \<open>Mandatory expiration\<close>

text \<open>
  Claim C4. Every credential that \<^const>\<open>signJWT\<close> produces carries a numeric \<^verbatim>\<open>exp\<close>
  claim, whatever the options. Signed without \<^verbatim>\<open>expiresIn\<close>, the decoded credential has
  \<^verbatim>\<open>exp - iat = 3600\<close>; and with HS256, HS384 or HS512, a key that passes validation
  and no \<^verbatim>\<open>notBefore\<close>, signing without \<^verbatim>\<open>expiresIn\<close> does produce a credential.
\<close>

theorem default_expiration_one_hour:
  "(\<forall>token. signJWT W clock C options = Inr token \<longrightarrow>
      (\<exists>e. get_prop (snd (decodeJWT token)) ''exp'' = Some (JNum e)))
   \<and> (so_expiresIn options = None \<longrightarrow>
        (\<forall>token. signJWT W clock C options = Inr token \<longrightarrow>
           (\<exists>i e. get_prop (snd (decodeJWT token)) ''iat'' = Some (JNum i)
              \<and> get_prop (snd (decodeJWT token)) ''exp'' = Some (JNum e)
              \<and> e - i = 3600))
        \<and> (so_alg options \<in> {''HS256'', ''HS384'', ''HS512''}
             \<and> validateKeyForAlgorithm (so_secret options) (so_alg options) = Inr ()
             \<and> \<not> timespan_truthy (so_notBefore options)
            \<longrightarrow> (\<exists>token. signJWT W clock C options = Inr token)))"
proof (intro conjI allI impI)
  fix token assume "signJWT W clock C options = Inr token"
  from signJWT_claims [OF this, of "''exp''"]
  show "\<exists>e. get_prop (snd (decodeJWT token)) ''exp'' = Some (JNum e)"
    by (simp add: decodeJWT_def expected_claims_def Let_def)
next
  fix token
  assume none: "so_expiresIn options = None" and s: "signJWT W clock C options = Inr token"
  from signJWT_claims [OF s, of "''exp''"] signJWT_claims [OF s, of "''iat''"] none
  show "\<exists>i e. get_prop (snd (decodeJWT token)) ''iat'' = Some (JNum i)
              \<and> get_prop (snd (decodeJWT token)) ''exp'' = Some (JNum e) \<and> e - i = 3600"
    by (simp add: decodeJWT_def expected_claims_def Let_def)
next
  assume none: "so_expiresIn options = None"
    and ok: "so_alg options \<in> {''HS256'', ''HS384'', ''HS512''}
             \<and> validateKeyForAlgorithm (so_secret options) (so_alg options) = Inr ()
             \<and> \<not> timespan_truthy (so_notBefore options)"
  from ok have fam: "isSecureAlgorithm (so_alg options)"
    "shared_secret_algorithm (so_alg options)"
    by (auto simp: isSecureAlgorithm_def shared_secret_algorithm_def)
  from none ok obtain jwt where "build_claims clock C options = Inr jwt"
    using build_claims_total [of options clock C] by auto
  with ok fam show "\<exists>token. signJWT W clock C options = Inr token"
    by (simp add: signJWT_def jose_sign_def)
qed

theorem default_expiration_one_hour_witness:
  "so_expiresIn example_sign_options = None
   \<and> (\<exists>token. signJWT example_world 1700000000123 [(''sub'', JStr ''user123'')]
                 example_sign_options = Inr token
        \<and> (\<exists>i e. get_prop (snd (decodeJWT token)) ''iat'' = Some (JNum i)
              \<and> get_prop (snd (decodeJWT token)) ''exp'' = Some (JNum e)
              \<and> e - i = 3600))"
  using default_expiration_one_hour
    [of example_world 1700000000123 "[(''sub'', JStr ''user123'')]" example_sign_options]
    example_sign
  by (simp add: example_sign_options_def)

section \<open>A zero offset is no offset\<close>

lemma example_sign_zero:
  "signJWT example_world 1700000000123 [(''sub'', JStr ''user123'')]
     (example_sign_options\<lparr>so_expiresIn := Some (TNum 0)\<rparr>) =
     Inr (signed_token ''HS256'' (key_bytes example_secret)
            [(''sub'', JStr ''user123''), (''iat'', JNum 1700000000),
             (''exp'', JNum 1700003600)])"
  using one_hour
  by (simp add: signJWT_def example_sign_options_def example_key_valid example_alg_secure
      jose_sign_def shared_secret_algorithm_def build_claims_def with_expiration_def with_notBefore_def with_names_def
      setExpirationTime_def set_time_claim_def setIssuedAt_def)

text \<open>
  Claim C10. \<^verbatim>\<open>expiresIn\<close> equal to the number 0 is falsy, so \<^const>\<open>signJWT\<close> does exactly
  what it does without the option: the default of one hour applies, and the decoded
  credential has \<^verbatim>\<open>exp - iat = 3600\<close>, not \<^verbatim>\<open>exp = iat\<close>.
\<close>

theorem zero_expiresIn_is_default:
  "signJWT W clock C (options\<lparr>so_expiresIn := Some (TNum 0)\<rparr>)
     = signJWT W clock C (options\<lparr>so_expiresIn := None\<rparr>)
   \<and> (\<forall>token. signJWT W clock C (options\<lparr>so_expiresIn := Some (TNum 0)\<rparr>) = Inr token \<longrightarrow>
         (\<exists>i e. get_prop (snd (decodeJWT token)) ''iat'' = Some (JNum i)
            \<and> get_prop (snd (decodeJWT token)) ''exp'' = Some (JNum e)
            \<and> e - i = 3600))"
proof (intro conjI allI impI)
  show "signJWT W clock C (options\<lparr>so_expiresIn := Some (TNum 0)\<rparr>)
          = signJWT W clock C (options\<lparr>so_expiresIn := None\<rparr>)"
  proof -
    have "build_claims clock C (options\<lparr>so_expiresIn := Some (TNum 0)\<rparr>)
            = build_claims clock C (options\<lparr>so_expiresIn := None\<rparr>)"
      by (simp add: build_claims_def with_expiration_def with_names_def split: sum.splits)
    then show ?thesis by (simp add: signJWT_def split: sum.splits)
  qed
next
  fix token
  assume s: "signJWT W clock C (options\<lparr>so_expiresIn := Some (TNum 0)\<rparr>) = Inr token"
  from signJWT_claims [OF s, of "''exp''"] signJWT_claims [OF s, of "''iat''"]
  show "\<exists>i e. get_prop (snd (decodeJWT token)) ''iat'' = Some (JNum i)
            \<and> get_prop (snd (decodeJWT token)) ''exp'' = Some (JNum e) \<and> e - i = 3600"
    by (simp add: decodeJWT_def expected_claims_def Let_def)
qed

theorem zero_expiresIn_is_default_witness:
  "\<exists>token. signJWT example_world 1700000000123 [(''sub'', JStr ''user123'')]
               (example_sign_options\<lparr>so_expiresIn := Some (TNum 0)\<rparr>) = Inr token
      \<and> (\<exists>i e. get_prop (snd (decodeJWT token)) ''iat'' = Some (JNum i)
            \<and> get_prop (snd (decodeJWT token)) ''exp'' = Some (JNum e)
            \<and> e - i = 3600)"
proof -
  from conjunct2 [OF zero_expiresIn_is_default
      [of example_world 1700000000123 "[(''sub'', JStr ''user123'')]" example_sign_options]]
    example_sign_zero
  show ?thesis by blast
qed

section \<open>Verification of a credential signed by the library\<close>

lemma verify_with_secret:
  assumes "vo_secret O' = Some k" "key_truthy k" "\<not> str_truthy (vo_jwksUri O')"
  shows "verifyJWT (jose W clock') token O' =
     (case jose_jwtVerify W clock' token (SecretBytes (key_bytes k)) (verify_call_options O') of
        Inl f \<Rightarrow> Inl (verify_error (failure_message W f))
      | Inr p \<Rightarrow> Inr p)"
  using assms
  by (simp add: verifyJWT_def select_key_def jose_def key_bytes_def split: sum.splits)

lemma validate_key_truthy:
  "validateKeyForAlgorithm k a = Inr () \<Longrightarrow> key_truthy k"
  by (auto simp: validateKeyForAlgorithm_def split: if_splits)

lemma jwtVerify_own_signature:
  assumes "token = signed_token alg kb claims"
    and "shared_secret_algorithm alg"
    and "jv_algorithms opts = None \<or> jv_algorithms opts = Some [alg]"
  shows "jose_jwtVerify W clock' token (SecretBytes kb) opts =
     (case check_nbf (clock' div 1000) (jv_clockTolerance opts) claims of
        Some f \<Rightarrow> Inl f
      | None \<Rightarrow>
          (case check_exp (clock' div 1000) (jv_clockTolerance opts) claims of
             Some f \<Rightarrow> Inl f
           | None \<Rightarrow>
               if \<not> issuer_ok (jv_issuer opts) claims then Inl IssuerMismatch
               else if \<not> audience_ok (jv_audience opts) claims then Inl AudienceMismatch
               else Inr claims))"
  using assms
  by (auto simp: jose_jwtVerify_def resolve_keys_def serves_def signed_token_def Let_def)

lemma call_algorithms:
  assumes "\<not> str_truthy (vo_alg O') \<or> vo_alg O' = Some a"
  shows "jv_algorithms (verify_call_options O') = None
         \<or> jv_algorithms (verify_call_options O') = Some [a]"
  using assms by (cases "vo_alg O'") (auto simp: verify_call_options_def)

lemma call_tolerance:
  "jv_clockTolerance (verify_call_options O') =
     (case vo_clockTolerance O' of Some t \<Rightarrow> t | None \<Rightarrow> 0)"
  by (simp add: verify_call_options_def split: option.splits)

lemma check_nbf_ok:
  assumes "\<forall>v. get_prop claims ''nbf'' = Some v \<longrightarrow> (\<exists>n. v = JNum n \<and> n - tol \<le> now)"
  shows "check_nbf now tol claims = None"
proof (cases "get_prop claims ''nbf''")
  case None
  then show ?thesis by (simp add: check_nbf_def)
next
  case (Some v)
  with assms obtain n where "v = JNum n" "n - tol \<le> now" by blast
  with Some show ?thesis by (simp add: check_nbf_def)
qed

lemma example_sign_named:
  "signJWT example_world 1700000000123 example_claims example_named_options =
     Inr (signed_token ''HS256'' (key_bytes example_secret)
            [(''sub'', JStr ''user123''), (''iat'', JNum 1700000000),
             (''exp'', JNum 1700003600), (''aud'', JStr ''https://api.example.com''),
             (''iss'', JStr ''https://auth.example.com'')])"
  using one_hour
  by (simp add: signJWT_def example_named_options_def example_sign_options_def example_claims_def
      example_key_valid example_alg_secure
      jose_sign_def shared_secret_algorithm_def build_claims_def with_expiration_def with_notBefore_def with_names_def
      setExpirationTime_def set_time_claim_def setIssuedAt_def setAudience_def setIssuer_def)

lemma example_sign_expired:
  "signJWT example_world 1700000000123 example_claims example_expired_options =
     Inr (signed_token ''HS256'' (key_bytes example_secret)
            [(''sub'', JStr ''user123''), (''iat'', JNum 1700000000),
             (''exp'', JNum 1699999999)])"
  by (simp add: signJWT_def example_expired_options_def example_sign_options_def
      example_claims_def example_key_valid example_alg_secure
      jose_sign_def shared_secret_algorithm_def build_claims_def with_expiration_def with_notBefore_def with_names_def
      setExpirationTime_def set_time_claim_def setIssuedAt_def getCurrentTimestamp_def)

section \<open>Signing and verifying\<close>

text \<open>
  Claim C1, as amended. Let \<^const>\<open>signJWT\<close> produce a credential from the claims \<open>C\<close> and the
  options \<open>O\<close>. Verification with options that carry the same key and no key-set URI,
  no algorithm or the signing algorithm, no issuer or the signed issuer, and no audience or
  the signed audience succeeds, provided the time of verification lies in the validity
  window of the credential: a not-before claim, if there is one, is a number not later
  than now plus the tolerance, and now is before the expiration plus the tolerance. The
  payload returned is \<open>C\<close> plus the generated claims: \<^verbatim>\<open>iat\<close> and \<^verbatim>\<open>exp\<close>, and \<^verbatim>\<open>nbf\<close>,
  \<^verbatim>\<open>aud\<close>, \<^verbatim>\<open>iss\<close>, \<^verbatim>\<open>sub\<close> when the option was set (\<^const>\<open>expected_claims\<close>).
\<close>

theorem sign_verify_roundtrip:
  assumes sign: "signJWT W clock C options = Inr token"
    and key: "vo_secret O' = Some (so_secret options)" "\<not> str_truthy (vo_jwksUri O')"
    and alg: "\<not> str_truthy (vo_alg O') \<or> vo_alg O' = Some (so_alg options)"
    and iss: "vo_issuer O' = None
              \<or> (str_truthy (so_issuer options) \<and> vo_issuer O' = so_issuer options)"
    and aud: "vo_audience O' = None
              \<or> (str_truthy (so_audience options) \<and> vo_audience O' = so_audience options)"
    and tol: "tol = (case vo_clockTolerance O' of Some t \<Rightarrow> t | None \<Rightarrow> 0)"
    and nbf: "\<forall>v. get_prop (tok_claims token) ''nbf'' = Some v \<longrightarrow>
                (\<exists>n. v = JNum n \<and> n - tol \<le> clock' div 1000)"
    and exp: "\<forall>e. get_prop (tok_claims token) ''exp'' = Some (JNum e) \<longrightarrow>
                clock' div 1000 < e + tol"
  shows "\<exists>p. verifyJWT (jose W clock') token O' = Inr p
           \<and> (\<forall>k. get_prop p k = expected_claims clock C options k)"
proof -
  let ?claims = "tok_claims token"
  let ?opts = "verify_call_options O'"
  note s = signJWT_Inr [OF sign]
  have claims: "get_prop ?claims k = expected_claims clock C options k" for k
    by (rule signJWT_claims [OF sign])
  have truthy: "key_truthy (so_secret options)"
    by (rule validate_key_truthy [OF s(2)])
  have t: "jv_clockTolerance ?opts = tol"
    by (simp add: call_tolerance tol)
  have n: "check_nbf (clock' div 1000) tol ?claims = None"
    by (rule check_nbf_ok [OF nbf])
  obtain e where e: "get_prop ?claims ''exp'' = Some (JNum e)"
    using claims [of "''exp''"] by (simp add: expected_claims_def Let_def)
  with exp have "clock' div 1000 < e + tol" by blast
  with e have x: "check_exp (clock' div 1000) tol ?claims = None"
    by (simp add: check_exp_def)
  have i: "issuer_ok (jv_issuer ?opts) ?claims"
    using iss claims [of "''iss''"]
    by (cases "so_issuer options")
       (auto simp: issuer_ok_def verify_call_options_def expected_claims_def Let_def)
  have a: "audience_ok (jv_audience ?opts) ?claims"
    using aud claims [of "''aud''"]
    by (cases "so_audience options")
       (auto simp: audience_ok_def verify_call_options_def expected_claims_def Let_def)
  have "jose_jwtVerify W clock' token (SecretBytes (key_bytes (so_secret options))) ?opts
          = Inr ?claims"
    using jwtVerify_own_signature [OF s(4) s(5) call_algorithms [OF alg], of W clock'] t n x i a
    by simp
  then have "verifyJWT (jose W clock') token O' = Inr ?claims"
    using verify_with_secret [OF key(1) truthy key(2), of W clock' token] by simp
  with claims show ?thesis by blast
qed

theorem sign_verify_roundtrip_witness:
  "\<exists>token p.
      signJWT example_world 1700000000123 example_claims example_named_options = Inr token
    \<and> verifyJWT (jose example_world 1700000005000) token example_named_verify = Inr p
    \<and> (\<forall>k. get_prop p k =
           expected_claims 1700000000123 example_claims example_named_options k)"
proof -
  let ?token = "signed_token ''HS256'' (key_bytes example_secret)
            [(''sub'', JStr ''user123''), (''iat'', JNum 1700000000),
             (''exp'', JNum 1700003600), (''aud'', JStr ''https://api.example.com''),
             (''iss'', JStr ''https://auth.example.com'')]"
  have "\<exists>p. verifyJWT (jose example_world 1700000005000) ?token example_named_verify = Inr p
           \<and> (\<forall>k. get_prop p k =
                  expected_claims 1700000000123 example_claims example_named_options k)"
  proof (rule sign_verify_roundtrip [OF example_sign_named, where tol = 0])
    show "vo_secret example_named_verify = Some (so_secret example_named_options)"
      by (simp add: example_named_verify_def example_verify_options_def
          example_named_options_def example_sign_options_def)
    show "\<not> str_truthy (vo_jwksUri example_named_verify)"
      by (simp add: example_named_verify_def example_verify_options_def)
    show "\<not> str_truthy (vo_alg example_named_verify)
          \<or> vo_alg example_named_verify = Some (so_alg example_named_options)"
      by (simp add: example_named_verify_def example_verify_options_def
          example_named_options_def example_sign_options_def)
    show "vo_issuer example_named_verify = None
          \<or> (str_truthy (so_issuer example_named_options)
              \<and> vo_issuer example_named_verify = so_issuer example_named_options)"
      by (simp add: example_named_verify_def example_named_options_def)
    show "vo_audience example_named_verify = None
          \<or> (str_truthy (so_audience example_named_options)
              \<and> vo_audience example_named_verify = so_audience example_named_options)"
      by (simp add: example_named_verify_def example_named_options_def)
    show "(0::int) = (case vo_clockTolerance example_named_verify of Some t \<Rightarrow> t | None \<Rightarrow> 0)"
      by (simp add: example_named_verify_def example_verify_options_def)
    show "\<forall>v. get_prop (tok_claims ?token) ''nbf'' = Some v \<longrightarrow>
            (\<exists>n. v = JNum n \<and> n - 0 \<le> 1700000005000 div 1000)"
      by (simp add: signed_token_def get_prop_def)
    show "\<forall>e. get_prop (tok_claims ?token) ''exp'' = Some (JNum e) \<longrightarrow>
            1700000005000 div 1000 < e + 0"
      by (simp add: signed_token_def get_prop_def)
  qed
  with example_sign_named show ?thesis by blast
qed

text \<open>
  Without the validity window the claim fails: a credential signed with a not-before
  offset of one hour and verified at the instant of signing, with the same key and
  algorithm, is rejected.
\<close>

theorem roundtrip_outside_window_counterexample:
  "\<exists>token e.
      signJWT example_world 1700000000123 example_claims example_not_yet_options = Inr token
    \<and> verifyJWT (jose example_world 1700000000123) token example_verify_options = Inl e"
proof -
  let ?claims = "[(''sub'', JStr ''user123''), (''iat'', JNum 1700000000),
                  (''exp'', JNum 1700003600), (''nbf'', JNum 1700003600)]"
  let ?token = "signed_token ''HS256'' (key_bytes example_secret) ?claims"
  have sign: "signJWT example_world 1700000000123 example_claims example_not_yet_options
                = Inr ?token"
    using one_hour
    by (simp add: signJWT_def example_not_yet_options_def example_sign_options_def
        example_claims_def example_key_valid example_alg_secure
        jose_sign_def shared_secret_algorithm_def build_claims_def
        with_expiration_def with_notBefore_def with_names_def setExpirationTime_def
        setNotBefore_def set_time_claim_def setIssuedAt_def getCurrentTimestamp_def)
  have k: "vo_secret example_verify_options = Some example_secret"
    "key_truthy example_secret" "\<not> str_truthy (vo_jwksUri example_verify_options)"
    by (simp_all add: example_verify_options_def example_secret_def)
  have a: "jv_algorithms (verify_call_options example_verify_options) = None
           \<or> jv_algorithms (verify_call_options example_verify_options) = Some [''HS256'']"
    by (simp add: verify_call_options_def example_verify_options_def)
  have h: "shared_secret_algorithm ''HS256''"
    by (simp add: shared_secret_algorithm_def)
  have "jose_jwtVerify example_world 1700000000123 ?token (SecretBytes (key_bytes example_secret))
          (verify_call_options example_verify_options) = Inl NotYetValid"
    unfolding jwtVerify_own_signature [OF refl h a]
    by (simp add: check_nbf_def get_prop_def verify_call_options_def
        example_verify_options_def)
  then have "verifyJWT (jose example_world 1700000000123) ?token example_verify_options
               = Inl (verify_error (failure_message example_world NotYetValid))"
    unfolding verify_with_secret [OF k] by simp
  with sign show ?thesis by blast
qed

section \<open>Expired credentials\<close>

lemma expired_credential_reported:
  assumes sign: "signJWT W clock C options = Inr token"
    and minus_one: "so_expiresIn options = Some (TNum (- 1))"
    and later: "clock \<le> clock'"
    and key: "vo_secret O' = Some (so_secret options)" "\<not> str_truthy (vo_jwksUri O')"
    and alg: "\<not> str_truthy (vo_alg O') \<or> vo_alg O' = Some (so_alg options)"
    and tol: "vo_clockTolerance O' = None \<or> vo_clockTolerance O' = Some 0"
    and names: "vo_issuer O' = None" "vo_audience O' = None"
    and nbf: "\<forall>v. get_prop (tok_claims token) ''nbf'' = Some v \<longrightarrow>
                (\<exists>n. v = JNum n \<and> n \<le> clock' div 1000)"
  shows "verifyJWT (jose W clock') token O' = Inl (verify_error (failure_message W Expired))"
proof -
  let ?claims = "tok_claims token"
  let ?opts = "verify_call_options O'"
  note s = signJWT_Inr [OF sign]
  have truthy: "key_truthy (so_secret options)"
    by (rule validate_key_truthy [OF s(2)])
  have t: "jv_clockTolerance ?opts = 0"
    using tol by (auto simp: call_tolerance)
  have n: "check_nbf (clock' div 1000) 0 ?claims = None"
    using nbf by (intro check_nbf_ok) simp
  have e: "get_prop ?claims ''exp'' = Some (JNum (clock div 1000 - 1))"
    using signJWT_claims [OF sign, of "''exp''"] minus_one
    by (simp add: expected_claims_def Let_def duration_def parseTimeToSeconds_def)
  from later have "clock div 1000 \<le> clock' div 1000"
    by (rule zdiv_mono1) simp
  with e have x: "check_exp (clock' div 1000) 0 ?claims = Some Expired"
    by (simp add: check_exp_def)
  have "jose_jwtVerify W clock' token (SecretBytes (key_bytes (so_secret options))) ?opts
          = Inl Expired"
    using jwtVerify_own_signature [OF s(4) s(5) call_algorithms [OF alg], of W clock'] t n x
    by simp
  then show ?thesis
    using verify_with_secret [OF key(1) truthy key(2), of W clock' token]
    by simp
qed

lemma jose_expiry_text:
  "verify_error (jose_message Expired) =
     InvalidTokenError (''Invalid token: '' @ quoted ''exp'' @ '' claim timestamp check failed'')"
  by (simp add: verify_error_def jose_message_def quoted_def startsWith_def)

text \<open>
  Claim C6 fails on the code. A credential signed with \<^verbatim>\<open>expiresIn = -1\<close> expires one
  second before it is issued, and the collaborator refuses it as expired at any time at
  or after signing. The \<^verbatim>\<open>catch\<close> block of \<^const>\<open>verifyJWT\<close> looks for the word
  \<^verbatim>\<open>expired\<close> in the message of the error, and the message with which the library
  reports an expired credential does not contain it. At the input of the repository's
  own test (the test secret, HS256, \<^verbatim>\<open>expiresIn = -1\<close>, verification at the instant of
  signing with the same secret and algorithm) the result is an \<^verbatim>\<open>InvalidTokenError\<close>,
  where the claim and the test expect \<^verbatim>\<open>TokenExpiredError\<close>.
\<close>

theorem expired_credential_reported_as_invalid:
  "\<exists>token.
      signJWT example_world 1700000000123 example_claims example_expired_options = Inr token
    \<and> verifyJWT (jose example_world 1700000000123) token example_verify_options
        = Inl (InvalidTokenError
                (''Invalid token: '' @ quoted ''exp'' @ '' claim timestamp check failed''))"
proof -
  let ?token = "signed_token ''HS256'' (key_bytes example_secret)
            [(''sub'', JStr ''user123''), (''iat'', JNum 1700000000),
             (''exp'', JNum 1699999999)]"
  have "verifyJWT (jose example_world 1700000000123) ?token example_verify_options
          = Inl (verify_error (failure_message example_world Expired))"
  proof (rule expired_credential_reported [OF example_sign_expired])
    show "so_expiresIn example_expired_options = Some (TNum (- 1))"
      by (simp add: example_expired_options_def)
    show "(1700000000123::int) \<le> 1700000000123" by simp
    show "vo_secret example_verify_options = Some (so_secret example_expired_options)"
      by (simp add: example_verify_options_def example_expired_options_def
          example_sign_options_def)
    show "\<not> str_truthy (vo_jwksUri example_verify_options)"
      by (simp add: example_verify_options_def)
    show "\<not> str_truthy (vo_alg example_verify_options)
          \<or> vo_alg example_verify_options = Some (so_alg example_expired_options)"
      by (simp add: example_verify_options_def example_expired_options_def
          example_sign_options_def)
    show "vo_clockTolerance example_verify_options = None
          \<or> vo_clockTolerance example_verify_options = Some 0"
      by (simp add: example_verify_options_def)
    show "vo_issuer example_verify_options = None" "vo_audience example_verify_options = None"
      by (simp_all add: example_verify_options_def)
    show "\<forall>v. get_prop (tok_claims ?token) ''nbf'' = Some v \<longrightarrow>
            (\<exists>n. v = JNum n \<and> n \<le> 1700000000123 div 1000)"
      by (simp add: signed_token_def get_prop_def)
  qed
  then have "verifyJWT (jose example_world 1700000000123) ?token example_verify_options
          = Inl (InvalidTokenError
                  (''Invalid token: '' @ quoted ''exp'' @ '' claim timestamp check failed''))"
    by (simp add: example_world_def jose_expiry_text)
  with example_sign_expired show ?thesis by blast
qed

text \<open>
  The error class rests on the text of the collaborator's message alone: under the
  conditions of \<open>expired_credential_reported\<close>, a message that contains the word
  \<^verbatim>\<open>expired\<close> gives \<^verbatim>\<open>TokenExpiredError\<close>, and one that contains neither \<^verbatim>\<open>expired\<close> nor
  \<^verbatim>\<open>signature\<close> gives \<^verbatim>\<open>InvalidTokenError\<close>.
\<close>

lemma verify_error_by_text:
  "str_includes m ''expired'' \<Longrightarrow> verify_error m = TokenExpiredError ''Token has expired''"
  "\<not> str_includes m ''expired'' \<Longrightarrow> \<not> str_includes m ''signature'' \<Longrightarrow>
     verify_error m = InvalidTokenError (''Invalid token: '' @ m)"
  by (simp_all add: verify_error_def)

section \<open>The algorithm allow-list\<close>



lemma no_key_message:
  "verify_error ''Either secret or jwksUri must be provided''
     = InvalidTokenError ''Invalid token: Either secret or jwksUri must be provided''"
  by (simp add: verify_error_def startsWith_def)











section \<open>Key or key-set URI\<close>

lemma example_both_keys:
  "verifyJWT (jose example_world 1700000000123) example_rs256_token example_jwks_options
     = Inr (tok_claims example_rs256_token)"
proof -
  have "select_key (jose example_world 1700000000123) example_jwks_options
          = Inr (RemoteJWKSet ''https://example.com/.well-known/jwks.json'')"
    by (simp add: select_key_def example_jwks_options_def jose_def example_world_def
        startsWith_def)
  moreover have "jose_jwtVerify example_world 1700000000123 example_rs256_token
          (RemoteJWKSet ''https://example.com/.well-known/jwks.json'')
          (verify_call_options example_jwks_options) = Inr (tok_claims example_rs256_token)"
    by (simp add: jose_jwtVerify_def resolve_keys_def verify_call_options_def
        example_jwks_options_def example_rs256_token_def signed_token_def example_world_def
        serves_def key_set_algorithm_def
        check_nbf_def check_exp_def issuer_ok_def audience_ok_def get_prop_def)
  ultimately show ?thesis
    by (simp add: verifyJWT_def jose_def)
qed

text \<open>
  Claim C3, as amended. When neither a key-set URI nor a key is provided (an empty string
  counts as not provided), \<^const>\<open>verifyJWT\<close> fails before any signature verification,
  whatever the collaborator, with the \<^verbatim>\<open>InvalidTokenError\<close> into which its \<^verbatim>\<open>catch\<close> block
  turns the message \<^verbatim>\<open>Either secret or jwksUri must be provided\<close>. When a key-set URI is
  provided it takes precedence: a key given beside it is ignored, and once the URI parses
  the result is that of the collaborator's verification against the remote key set.
\<close>

theorem key_selection:
  "(\<not> str_truthy (vo_jwksUri O')
      \<and> (vo_secret O' = None \<or> (\<exists>k. vo_secret O' = Some k \<and> \<not> key_truthy k))
    \<longrightarrow> verifyJWT J token O' =
          Inl (InvalidTokenError ''Invalid token: Either secret or jwksUri must be provided''))
   \<and> (\<forall>u. vo_jwksUri O' = Some u \<and> u \<noteq> [] \<longrightarrow>
          verifyJWT J token O' = verifyJWT J token (O'\<lparr>vo_secret := None\<rparr>)
        \<and> (\<forall>uri. new_URL J u = Inr uri \<longrightarrow>
              verifyJWT J token O' =
                (case jwtVerify J token (RemoteJWKSet uri) (verify_call_options O') of
                   Inl m \<Rightarrow> Inl (verify_error m)
                 | Inr p \<Rightarrow> Inr p)))"
proof (intro conjI impI allI)
  assume "\<not> str_truthy (vo_jwksUri O')
      \<and> (vo_secret O' = None \<or> (\<exists>k. vo_secret O' = Some k \<and> \<not> key_truthy k))"
  then have "select_key J O' = Inl ''Either secret or jwksUri must be provided''"
    by (auto simp: select_key_def)
  then show "verifyJWT J token O' =
          Inl (InvalidTokenError ''Invalid token: Either secret or jwksUri must be provided'')"
    by (simp add: verifyJWT_def no_key_message)
next
  fix u
  assume u: "vo_jwksUri O' = Some u \<and> u \<noteq> []"
  then have "select_key J (O'\<lparr>vo_secret := None\<rparr>) = select_key J O'"
    by (simp add: select_key_def)
  moreover have "verify_call_options (O'\<lparr>vo_secret := None\<rparr>) = verify_call_options O'"
    by (simp add: verify_call_options_def)
  ultimately show "verifyJWT J token O' = verifyJWT J token (O'\<lparr>vo_secret := None\<rparr>)"
    by (simp add: verifyJWT_def split: sum.splits)
next
  fix u uri
  assume u: "vo_jwksUri O' = Some u \<and> u \<noteq> []" and url: "new_URL J u = Inr uri"
  then have "select_key J O' = Inr (RemoteJWKSet uri)"
    by (simp add: select_key_def)
  then show "verifyJWT J token O' =
                (case jwtVerify J token (RemoteJWKSet uri) (verify_call_options O') of
                   Inl m \<Rightarrow> Inl (verify_error m)
                 | Inr p \<Rightarrow> Inr p)"
    by (simp add: verifyJWT_def)
qed

theorem key_selection_witness:
  "verifyJWT (jose example_world 1700000000123) example_rs256_token
      (example_no_key_options\<lparr>vo_alg := None\<rparr>)
     = Inl (InvalidTokenError ''Invalid token: Either secret or jwksUri must be provided'')
   \<and> verifyJWT (jose example_world 1700000000123) example_rs256_token
        (example_jwks_options\<lparr>vo_secret := None\<rparr>)
     = Inr (tok_claims example_rs256_token)"
proof -
  have a: "\<not> str_truthy (vo_jwksUri (example_no_key_options\<lparr>vo_alg := None\<rparr>))
     \<and> (vo_secret (example_no_key_options\<lparr>vo_alg := None\<rparr>) = None
        \<or> (\<exists>k. vo_secret (example_no_key_options\<lparr>vo_alg := None\<rparr>) = Some k
               \<and> \<not> key_truthy k))"
    by (simp add: example_no_key_options_def)
  have b: "vo_jwksUri example_jwks_options = Some ''https://example.com/.well-known/jwks.json''
           \<and> ''https://example.com/.well-known/jwks.json'' \<noteq> []"
    by (simp add: example_jwks_options_def)
  from key_selection [of "example_no_key_options\<lparr>vo_alg := None\<rparr>"
      "jose example_world 1700000000123" example_rs256_token] a
  have 1: "verifyJWT (jose example_world 1700000000123) example_rs256_token
      (example_no_key_options\<lparr>vo_alg := None\<rparr>)
     = Inl (InvalidTokenError ''Invalid token: Either secret or jwksUri must be provided'')"
    by blast
  from key_selection [of example_jwks_options
      "jose example_world 1700000000123" example_rs256_token] b
  have "verifyJWT (jose example_world 1700000000123) example_rs256_token example_jwks_options
        = verifyJWT (jose example_world 1700000000123) example_rs256_token
            (example_jwks_options\<lparr>vo_secret := None\<rparr>)"
    by blast
  with example_both_keys 1 show ?thesis by simp
qed

text \<open>
  The claim as stated fails when both are provided: for an RS256 credential signed by a
  key of the remote key set, verification proceeds with the key set and succeeds,
  although the key given beside the URI is a wrong one.
\<close>

theorem both_keys_counterexample:
  "str_truthy (vo_jwksUri example_jwks_options)
   \<and> vo_secret example_jwks_options = Some (KeyString ''wrong-secret-key'')
   \<and> verifyJWT (jose example_world 1700000000123) example_rs256_token example_jwks_options
       = Inr (tok_claims example_rs256_token)"
  using example_both_keys by (simp add: example_jwks_options_def)

section \<open>Security assessment under the default policy\<close>

lemma scenario_entries: "concat (map entry_warnings (scenario_payload T)) = []"
  by (simp add: scenario_payload_def entry_warnings_def sensitiveFields_def toLowerCase_def
      lower_char_def startsWith_def)

lemma scenario_warnings:
  assumes "0 \<le> T"
  shows "detectSuspiciousPatterns (scenario_payload T) =
     [''Missing issuer (iss) claim - recommended for token verification'']"
  unfolding detectSuspiciousPatterns_def scenario_entries
  using assms by (simp add: scenario_payload_def truthy_prop_def num_prop_def)

lemma scenario_violations:
  assumes "0 \<le> T" "clock div 1000 = T"
  shows "validateJWTSecurity clock (scenario_payload T) ''HS256'' DEFAULT_SECURITY_POLICY =
     [''Forbidden algorithm: HS256'',
      ''Missing issuer (iss) claim - recommended for token verification'']"
  unfolding validateJWTSecurity_def scenario_warnings [OF assms(1)]
  using assms
  by (simp add: DEFAULT_SECURITY_POLICY_def scenario_payload_def truthy_prop_def num_prop_def
      has_key_def get_prop_def)

text \<open>
  Claim C5, as amended. For the payload \<^verbatim>\<open>{sub: "u", iat: T, exp: T + 3600}\<close> assessed
  at the time \<open>T\<close> with the algorithm HS256 under the default policy, the assessment has
  two violations, the forbidden algorithm and the missing issuer, since
  \<^const>\<open>validateJWTSecurity\<close> appends what \<^const>\<open>detectSuspiciousPatterns\<close> finds to its
  violations. The missing issuer is also the one warning, and the score is
  \<open>100 - 2 * 15 - 5 = 65\<close>, which is at most 85.
\<close>

theorem default_policy_assessment:
  assumes "0 \<le> T" "clock div 1000 = T"
  shows "generateSecurityAssessment clock (scenario_payload T) ''HS256'' DEFAULT_SECURITY_POLICY =
     \<lparr>score = 65,
      violations = [''Forbidden algorithm: HS256'',
                    ''Missing issuer (iss) claim - recommended for token verification''],
      warnings = [''Missing issuer (iss) claim - recommended for token verification''],
      recommendations = [''Consider using RS256 for better security in distributed systems'',
                         ''Add issuer (iss) claim to identify token source'',
                         ''Add audience (aud) claim to specify intended recipients'']\<rparr>"
  unfolding generateSecurityAssessment_def scenario_violations [OF assms]
    scenario_warnings [OF assms(1)]
  using assms by (simp add: scenario_payload_def truthy_prop_def num_prop_def)

theorem default_policy_assessment_witness:
  "score (generateSecurityAssessment 1700000000123 (scenario_payload 1700000000) ''HS256''
            DEFAULT_SECURITY_POLICY) = 65
   \<and> length (violations (generateSecurityAssessment 1700000000123 (scenario_payload 1700000000)
                 ''HS256'' DEFAULT_SECURITY_POLICY)) = 2"
  using default_policy_assessment [of 1700000000 1700000000123] by simp

text \<open>The claim as stated fails: the violations are not the forbidden algorithm alone.\<close>

theorem one_violation_counterexample:
  "violations (generateSecurityAssessment 1700000000123
                 [(''sub'', JStr ''u''), (''iat'', JNum 1700000000), (''exp'', JNum 1700003600)]
                 ''HS256'' DEFAULT_SECURITY_POLICY)
     \<noteq> [''Forbidden algorithm: HS256'']
   \<and> length (violations (generateSecurityAssessment 1700000000123
                 [(''sub'', JStr ''u''), (''iat'', JNum 1700000000), (''exp'', JNum 1700003600)]
                 ''HS256'' DEFAULT_SECURITY_POLICY)) = 2"
proof -
  have "scenario_payload 1700000000 =
          [(''sub'', JStr ''u''), (''iat'', JNum 1700000000), (''exp'', JNum 1700003600)]"
    by (simp add: scenario_payload_def)
  moreover have "generateSecurityAssessment 1700000000123 (scenario_payload 1700000000) ''HS256''
          DEFAULT_SECURITY_POLICY =
     \<lparr>score = 65,
      violations = [''Forbidden algorithm: HS256'',
                    ''Missing issuer (iss) claim - recommended for token verification''],
      warnings = [''Missing issuer (iss) claim - recommended for token verification''],
      recommendations = [''Consider using RS256 for better security in distributed systems'',
                         ''Add issuer (iss) claim to identify token source'',
                         ''Add audience (aud) claim to specify intended recipients'']\<rparr>"
    unfolding generateSecurityAssessment_def scenario_violations [of 1700000000 1700000000123, simplified]
      scenario_warnings [of 1700000000, simplified]
    by (simp add: scenario_payload_def truthy_prop_def num_prop_def)
  ultimately show ?thesis by simp
qed

section \<open>The key-set cache\<close>

lemma getJWKS_hit:
  assumes "cache_hit clock uri st = Some d"
  shows "getJWKS fetch clock clock' uri st = (Inr d, st)"
  using assms by (simp add: getJWKS_def)

lemma getJWKS_miss_success:
  assumes "cache_hit clock uri st = None"
    and "getJWKS fetch clock clock' uri st = (Inr d, st1)"
  shows "map_of (jwksCache st1) uri = Some \<lparr>ce_data = d, ce_timestamp = clock'\<rparr>"
    and "requests st1 = requests st @ [uri]"
  using assms
  by (auto simp: getJWKS_def Let_def map_of_set_entry split: response.splits if_splits sum.splits)

lemma example_first_fetch:
  "getJWKS example_fetch 1700000000000 1700000000200
      ''https://example.com/.well-known/jwks.json'' empty_keys_state
     = (Inr example_jwks, warm_keys_state)"
  by (simp add: getJWKS_def cache_hit_def empty_keys_state_def warm_keys_state_def
      example_fetch_def)

text \<open>
  Claim C7. Let a call of \<^const>\<open>getJWKS\<close> for a URI miss the cache (no entry, or a stale
  one) and fetch the key set with success, storing it at the time \<open>t1'\<close>. A second call
  for the same URI at a time \<open>t2\<close> with \<open>t2 - t1' < 300000\<close> milliseconds returns the
  same key set and leaves the state as it is, whatever the network would answer: it
  makes no request. The two calls together make exactly one fetch for the URI.
\<close>

theorem cached_key_set_is_served:
  assumes miss: "cache_hit t1 uri st = None"
    and first: "getJWKS fetch1 t1 t1' uri st = (Inr jwks, st1)"
    and within: "t2 - t1' < JWKS_CACHE_TTL"
  shows "getJWKS fetch2 t2 t2' uri st1 = (Inr jwks, st1)
         \<and> fetch_count uri st1 = fetch_count uri st + 1"
proof -
  note m = getJWKS_miss_success [OF miss first]
  from m(1) within have "cache_hit t2 uri st1 = Some jwks"
    by (simp add: cache_hit_def)
  then have "getJWKS fetch2 t2 t2' uri st1 = (Inr jwks, st1)"
    by (rule getJWKS_hit)
  moreover from m(2) have "fetch_count uri st1 = fetch_count uri st + 1"
    by (simp add: fetch_count_def)
  ultimately show ?thesis by simp
qed

theorem cached_key_set_is_served_witness:
  "getJWKS example_fetch 1700000000000 1700000000200
      ''https://example.com/.well-known/jwks.json'' empty_keys_state
     = (Inr example_jwks, warm_keys_state)
   \<and> getJWKS failing_fetch 1700000300199 1700000300500
      ''https://example.com/.well-known/jwks.json'' warm_keys_state
     = (Inr example_jwks, warm_keys_state)
   \<and> fetch_count ''https://example.com/.well-known/jwks.json'' warm_keys_state = 1"
proof -
  have miss: "cache_hit 1700000000000 ''https://example.com/.well-known/jwks.json''
                empty_keys_state = None"
    by (simp add: cache_hit_def empty_keys_state_def)
  have within: "(1700000300199::int) - 1700000000200 < JWKS_CACHE_TTL"
    by (simp add: JWKS_CACHE_TTL_def)
  have zero: "fetch_count ''https://example.com/.well-known/jwks.json'' empty_keys_state = 0"
    by (simp add: fetch_count_def empty_keys_state_def)
  from cached_key_set_is_served [OF miss example_first_fetch within,
      of failing_fetch 1700000300500] example_first_fetch zero
  show ?thesis by simp
qed

section \<open>The length of a shared secret\<close>

lemma utf8_char_length: "1 \<le> length (utf8_char c)"
  by (simp add: utf8_char_def Let_def)

lemma TextEncoder_encode_length: "length s \<le> length (TextEncoder_encode s)"
proof (induction s)
  case Nil
  then show ?case by (simp add: TextEncoder_encode_def)
next
  case (Cons c s)
  with utf8_char_length [of c] show ?case by (simp add: TextEncoder_encode_def)
qed

lemma HS_not_asymmetric:
  assumes "startsWith algorithm ''HS''"
  shows "\<not> startsWith algorithm ''RS''" "\<not> startsWith algorithm ''ES''"
  using assms by (auto simp: startsWith_def)

lemma short_key_rejected:
  assumes "startsWith algorithm ''HS''" "length (key_toString key) < 32"
  shows "validateKeyForAlgorithm key algorithm = Inl (InvalidTokenError ''Key is required'')
         \<or> validateKeyForAlgorithm key algorithm =
             Inl (InvalidTokenError ''HMAC key should be at least 32 characters for security'')"
  using assms by (simp add: validateKeyForAlgorithm_def)

lemma long_key_truthy: "32 \<le> length (key_toString key) \<Longrightarrow> key_truthy key"
  by (cases key) auto

lemma HS_family:
  assumes "algorithm \<in> {''HS256'', ''HS384'', ''HS512''}"
  shows "startsWith algorithm ''HS''" "isSecureAlgorithm algorithm"
  using assms by (auto simp: startsWith_def isSecureAlgorithm_def)

lemma accented_key_bytes: "length (key_bytes accented_key) = 32"
  by (simp add: accented_key_def key_bytes_def TextEncoder_encode_def utf8_char_def
      length_concat sum_list_replicate)

text \<open>
  Claim C8, as amended. For an algorithm of the shared-secret family (one whose name
  starts with \<^verbatim>\<open>HS\<close>) key validation measures the secret in characters, the length of
  \<^verbatim>\<open>key.toString()\<close>: it fails with \<^verbatim>\<open>InvalidTokenError\<close> when the secret has fewer than 32
  characters, hence also when it has fewer than 32 bytes, and it passes when the secret
  has 32 characters or more. \<^const>\<open>signJWT\<close> with HS256, HS384 or HS512 fails in the same way
  on a secret of fewer than 32 characters, before anything is signed.
\<close>

theorem hmac_key_length:
  "(startsWith algorithm ''HS'' \<and> length (key_toString key) < 32 \<longrightarrow>
      validateKeyForAlgorithm key algorithm = Inl (InvalidTokenError ''Key is required'')
      \<or> validateKeyForAlgorithm key algorithm =
          Inl (InvalidTokenError ''HMAC key should be at least 32 characters for security''))
   \<and> (startsWith algorithm ''HS'' \<and> length (key_bytes key) < 32 \<longrightarrow>
        validateKeyForAlgorithm key algorithm = Inl (InvalidTokenError ''Key is required'')
        \<or> validateKeyForAlgorithm key algorithm =
            Inl (InvalidTokenError ''HMAC key should be at least 32 characters for security''))
   \<and> (startsWith algorithm ''HS'' \<and> 32 \<le> length (key_toString key) \<longrightarrow>
        validateKeyForAlgorithm key algorithm = Inr ())
   \<and> (so_alg options \<in> {''HS256'', ''HS384'', ''HS512''}
        \<and> length (key_toString (so_secret options)) < 32 \<longrightarrow>
        signJWT W clock C options = Inl (InvalidTokenError ''Key is required'')
        \<or> signJWT W clock C options =
            Inl (InvalidTokenError ''HMAC key should be at least 32 characters for security''))"
proof (intro conjI impI)
  assume "startsWith algorithm ''HS'' \<and> length (key_toString key) < 32"
  then show "validateKeyForAlgorithm key algorithm = Inl (InvalidTokenError ''Key is required'')
      \<or> validateKeyForAlgorithm key algorithm =
          Inl (InvalidTokenError ''HMAC key should be at least 32 characters for security'')"
    using short_key_rejected by blast
next
  assume b: "startsWith algorithm ''HS'' \<and> length (key_bytes key) < 32"
  with TextEncoder_encode_length [of "key_toString key"]
  have "length (key_toString key) < 32"
    by (simp add: key_bytes_def)
  with b show "validateKeyForAlgorithm key algorithm = Inl (InvalidTokenError ''Key is required'')
      \<or> validateKeyForAlgorithm key algorithm =
          Inl (InvalidTokenError ''HMAC key should be at least 32 characters for security'')"
    using short_key_rejected by blast
next
  assume a: "startsWith algorithm ''HS'' \<and> 32 \<le> length (key_toString key)"
  with HS_not_asymmetric [of algorithm] long_key_truthy [of key]
  show "validateKeyForAlgorithm key algorithm = Inr ()"
    by (simp add: validateKeyForAlgorithm_def)
next
  assume a: "so_alg options \<in> {''HS256'', ''HS384'', ''HS512''}
        \<and> length (key_toString (so_secret options)) < 32"
  then have hs: "startsWith (so_alg options) ''HS''" and sec: "isSecureAlgorithm (so_alg options)"
    using HS_family by blast+
  from short_key_rejected [OF hs, of "so_secret options"] a
  have "validateKeyForAlgorithm (so_secret options) (so_alg options)
          = Inl (InvalidTokenError ''Key is required'')
        \<or> validateKeyForAlgorithm (so_secret options) (so_alg options)
          = Inl (InvalidTokenError ''HMAC key should be at least 32 characters for security'')"
    by blast
  with sec
  show "signJWT W clock C options = Inl (InvalidTokenError ''Key is required'')
        \<or> signJWT W clock C options =
            Inl (InvalidTokenError ''HMAC key should be at least 32 characters for security'')"
    by (auto simp: signJWT_def)
qed

theorem hmac_key_length_witness:
  "validateKeyForAlgorithm (KeyString ''wrong-secret-key'') ''HS256'' =
       Inl (InvalidTokenError ''HMAC key should be at least 32 characters for security'')
   \<and> validateKeyForAlgorithm example_secret ''HS256'' = Inr ()
   \<and> signJWT example_world 1700000000123 example_claims
        (example_sign_options\<lparr>so_secret := KeyString ''wrong-secret-key''\<rparr>) =
       Inl (InvalidTokenError ''HMAC key should be at least 32 characters for security'')"
proof -
  let ?O = "example_sign_options\<lparr>so_secret := KeyString ''wrong-secret-key''\<rparr>"
  have hs: "startsWith ''HS256'' ''HS''" by (simp add: startsWith_def)
  have short: "length (key_toString (KeyString ''wrong-secret-key'')) < 32" by simp
  have long: "32 \<le> length (key_toString example_secret)" by (simp add: example_secret_def)
  have fam: "so_alg ?O \<in> {''HS256'', ''HS384'', ''HS512''}
        \<and> length (key_toString (so_secret ?O)) < 32"
    by (simp add: example_sign_options_def)
  have nk: "validateKeyForAlgorithm (KeyString ''wrong-secret-key'') ''HS256''
              \<noteq> Inl (InvalidTokenError ''Key is required'')"
    by (simp add: validateKeyForAlgorithm_def startsWith_def)
  have ns: "signJWT example_world 1700000000123 example_claims ?O
              \<noteq> Inl (InvalidTokenError ''Key is required'')"
    by (simp add: signJWT_def example_sign_options_def example_alg_secure
        validateKeyForAlgorithm_def startsWith_def)
  note h = hmac_key_length [of "''HS256''" "KeyString ''wrong-secret-key''" ?O
      example_world 1700000000123 example_claims]
  note h2 = hmac_key_length [of "''HS256''" example_secret ?O
      example_world 1700000000123 example_claims]
  from h hs short nk
  have 1: "validateKeyForAlgorithm (KeyString ''wrong-secret-key'') ''HS256'' =
       Inl (InvalidTokenError ''HMAC key should be at least 32 characters for security'')"
    by blast
  from h2 hs long have 2: "validateKeyForAlgorithm example_secret ''HS256'' = Inr ()"
    by blast
  from h fam ns have 3: "signJWT example_world 1700000000123 example_claims ?O =
       Inl (InvalidTokenError ''HMAC key should be at least 32 characters for security'')"
    by blast
  from 1 2 3 show ?thesis by simp
qed

text \<open>
  The claim as stated, in bytes, fails: a secret of sixteen two-byte characters has 32
  bytes and is rejected.
\<close>

theorem key_of_32_bytes_counterexample:
  "length (key_bytes accented_key) = 32
   \<and> validateKeyForAlgorithm accented_key ''HS256'' =
       Inl (InvalidTokenError ''HMAC key should be at least 32 characters for security'')
   \<and> signJWT example_world 1700000000123 example_claims
        (example_sign_options\<lparr>so_secret := accented_key\<rparr>) =
       Inl (InvalidTokenError ''HMAC key should be at least 32 characters for security'')"
proof -
  have v: "validateKeyForAlgorithm accented_key ''HS256'' =
       Inl (InvalidTokenError ''HMAC key should be at least 32 characters for security'')"
    by (simp add: validateKeyForAlgorithm_def accented_key_def startsWith_def)
  then have "signJWT example_world 1700000000123 example_claims
        (example_sign_options\<lparr>so_secret := accented_key\<rparr>) =
       Inl (InvalidTokenError ''HMAC key should be at least 32 characters for security'')"
    by (simp add: signJWT_def example_sign_options_def example_alg_secure)
  with v accented_key_bytes show ?thesis by simp
qed

section \<open>Cognito credentials\<close>

lemma jose_jwtVerify_claims:
  "jose_jwtVerify W clock token src opts = Inr p \<Longrightarrow> p = tok_claims token"
  by (auto simp: jose_jwtVerify_def Let_def split: option.splits if_splits)

lemma verifyJWT_jose_claims:
  assumes "verifyJWT (jose W clock) token options = Inr p"
  shows "p = tok_claims token"
  using assms
  by (auto simp: verifyJWT_def jose_def split: sum.splits dest: jose_jwtVerify_claims)

lemma cognito_provider:
  "ENTERPRISE_PROVIDERS ''cognito'' = Some (\<lambda>config.
          \<lparr>ep_name = ''AWS Cognito'',
           ep_jwksUri = ''https://cognito-idp.'' @ tpl (cfg_region config) @ ''.amazonaws.com/''
                          @ tpl (cfg_userPoolId config) @ ''/.well-known/jwks.json'',
           ep_issuer = Some (''https://cognito-idp.'' @ tpl (cfg_region config)
                          @ ''.amazonaws.com/'' @ tpl (cfg_userPoolId config)),
           ep_audience = cfg_clientId config,
           ep_algorithms = [''RS256''],
           ep_description = ''AWS Cognito User Pool''\<rparr>)"
  by (simp add: ENTERPRISE_PROVIDERS_def)

lemma cognito_check:
  assumes "\<not> token_use_valid payload"
  shows "\<exists>m. validateEnterpriseToken payload ''cognito'' config = Inl (InvalidTokenError m)"
  using assms by (simp add: validateEnterpriseToken_def token_use_valid_def)

lemma cognito_options:
  "enterprise_options
     \<lparr>ep_name = ''AWS Cognito'',
      ep_jwksUri = ''https://cognito-idp.'' @ tpl (cfg_region cognito_config) @ ''.amazonaws.com/''
                     @ tpl (cfg_userPoolId cognito_config) @ ''/.well-known/jwks.json'',
      ep_issuer = Some (''https://cognito-idp.'' @ tpl (cfg_region cognito_config)
                     @ ''.amazonaws.com/'' @ tpl (cfg_userPoolId cognito_config)),
      ep_audience = cfg_clientId cognito_config,
      ep_algorithms = [''RS256''],
      ep_description = ''AWS Cognito User Pool''\<rparr> no_overrides =
   \<lparr>vo_secret = None, vo_alg = None,
    vo_jwksUri = Some ''https://cognito-idp.us-east-1.amazonaws.com/us-east-1_ABC123DEF/.well-known/jwks.json'',
    vo_audience = None,
    vo_issuer = Some ''https://cognito-idp.us-east-1.amazonaws.com/us-east-1_ABC123DEF'',
    vo_clockTolerance = None\<rparr>"
  by (simp add: enterprise_options_def cognito_config_def no_overrides_def tpl_def)

lemma cognito_verifies:
  assumes "token = signed_token ''RS256'' example_key_pair claims"
    and "get_prop claims ''nbf'' = None" "get_prop claims ''exp'' = Some (JNum 1700003600)"
    and "get_prop claims ''iss'' =
           Some (JStr ''https://cognito-idp.us-east-1.amazonaws.com/us-east-1_ABC123DEF'')"
  shows "verifyJWT (jose cognito_world 1700000005000) token
     \<lparr>vo_secret = None, vo_alg = None,
      vo_jwksUri = Some ''https://cognito-idp.us-east-1.amazonaws.com/us-east-1_ABC123DEF/.well-known/jwks.json'',
      vo_audience = None,
      vo_issuer = Some ''https://cognito-idp.us-east-1.amazonaws.com/us-east-1_ABC123DEF'',
      vo_clockTolerance = None\<rparr> = Inr claims"
  using assms
  by (simp add: verifyJWT_def select_key_def jose_def cognito_world_def example_world_def
      startsWith_def verify_call_options_def jose_jwtVerify_def resolve_keys_def
      signed_token_def serves_def key_set_algorithm_def
      check_nbf_def check_exp_def issuer_ok_def audience_ok_def)

lemma cognito_token_verifies:
  "verifyJWT (jose cognito_world 1700000005000) cognito_token
     (enterprise_options
        (the (ENTERPRISE_PROVIDERS ''cognito'') cognito_config) no_overrides)
   = Inr cognito_claims"
  unfolding cognito_provider option.sel cognito_options
  by (rule cognito_verifies [OF cognito_token_def])
     (simp_all add: cognito_claims_def get_prop_def)

text \<open>
  Claim C9. Take a credential for which verification, whenever it succeeds, returns
  claims without a valid \<^verbatim>\<open>token_use\<close>: the claim is missing, or it is not the string
  \<^verbatim>\<open>id\<close> or \<^verbatim>\<open>access\<close>. Verification under the Cognito profile fails with
  \<^verbatim>\<open>InvalidTokenError\<close>, whatever the verifier answers, so whether or not the signature
  is valid, and whatever the configuration and the caller's options.
\<close>

theorem cognito_requires_token_use:
  assumes "\<forall>options' payload. verify token options' = Inr payload \<longrightarrow> \<not> token_use_valid payload"
  shows "\<exists>m. verifyEnterpriseJWT verify token ''cognito'' config options
              = Inl (InvalidTokenError m)"
proof -
  obtain build where b: "ENTERPRISE_PROVIDERS ''cognito'' = Some build"
    using cognito_provider by blast
  let ?vo = "enterprise_options (build config) options"
  show ?thesis
  proof (cases "verify token ?vo")
    case (Inl e)
    with b show ?thesis by (simp add: verifyEnterpriseJWT_def Let_def)
  next
    case (Inr payload)
    with assms have "\<not> token_use_valid payload" by blast
    from cognito_check [OF this, of config] obtain m where
      "validateEnterpriseToken payload ''cognito'' config = Inl (InvalidTokenError m)" ..
    with b Inr show ?thesis by (simp add: verifyEnterpriseJWT_def Let_def)
  qed
qed

theorem cognito_requires_token_use_witness:
  "\<not> token_use_valid (tok_claims cognito_token)
   \<and> verifyEnterpriseJWT (verifyJWT (jose cognito_world 1700000005000)) cognito_token
        ''cognito'' cognito_config no_overrides
     = Inl (InvalidTokenError
         ''Enterprise verification failed for AWS Cognito: AWS Cognito token missing token_use claim'')"
proof -
  have lacks: "\<not> token_use_valid (tok_claims cognito_token)"
    by (simp add: token_use_valid_def cognito_token_def signed_token_def cognito_claims_def
        get_prop_def)
  have hyp: "\<forall>options' payload.
      verifyJWT (jose cognito_world 1700000005000) cognito_token options' = Inr payload
        \<longrightarrow> \<not> token_use_valid payload"
    using lacks verifyJWT_jose_claims by blast
  from cognito_requires_token_use
    [of "verifyJWT (jose cognito_world 1700000005000)" cognito_token
        cognito_config no_overrides] hyp
  obtain m where m: "verifyEnterpriseJWT (verifyJWT (jose cognito_world 1700000005000))
      cognito_token ''cognito'' cognito_config no_overrides = Inl (InvalidTokenError m)"
    by blast
  have check: "validateEnterpriseToken cognito_claims ''cognito'' cognito_config
                 = Inl (InvalidTokenError ''AWS Cognito token missing token_use claim'')"
    by (simp add: validateEnterpriseToken_def cognito_claims_def truthy_prop_def)
  have "verifyEnterpriseJWT (verifyJWT (jose cognito_world 1700000005000)) cognito_token
        ''cognito'' cognito_config no_overrides
     = Inl (InvalidTokenError
         ''Enterprise verification failed for AWS Cognito: AWS Cognito token missing token_use claim'')"
    using cognito_token_verifies check
    by (simp add: verifyEnterpriseJWT_def cognito_provider Let_def)
  with lacks m show ?thesis by simp
qed

text \<open>A credential of the same pool with \<^verbatim>\<open>token_use = id\<close> is accepted.\<close>

lemma cognito_accepts_id_token:
  "verifyEnterpriseJWT (verifyJWT (jose cognito_world 1700000005000)) cognito_id_token
        ''cognito'' cognito_config no_overrides
     = Inr (cognito_claims @ [(''token_use'', JStr ''id'')])"
proof -
  have v: "verifyJWT (jose cognito_world 1700000005000) cognito_id_token
     (enterprise_options
        (the (ENTERPRISE_PROVIDERS ''cognito'') cognito_config) no_overrides)
   = Inr (cognito_claims @ [(''token_use'', JStr ''id'')])"
    unfolding cognito_provider option.sel cognito_options
    by (rule cognito_verifies [OF cognito_id_token_def])
       (simp_all add: cognito_claims_def get_prop_def)
  have "validateEnterpriseToken (cognito_claims @ [(''token_use'', JStr ''id'')])
          ''cognito'' cognito_config = Inr ()"
    by (simp add: validateEnterpriseToken_def cognito_claims_def truthy_prop_def get_prop_def)
  with v show ?thesis
    by (simp add: verifyEnterpriseJWT_def cognito_provider Let_def)
qed

end
